theory Spec2Isabelle
  imports Complex_Main "HOL-Library.Log_Nat"
begin

section \<open>Data model\<close>

text \<open>
  The persistent store holds four collections (User, Company, Job, Application).
  A document identifier (a MongoDB ObjectId) is a natural number and a point in time
  (\<open>new Date()\<close>, \<open>Date.now()\<close>) is a natural number of milliseconds. Fields that no
  operation below reads or writes (names, profile, resume, consent, tracking,
  interviews) are left out of the records.
\<close>

type_synonym oid = nat
type_synonym instant = nat

subsection \<open>Numbers\<close>

text \<open>
  Every counter and amount is a JavaScript Number, an IEEE 754 binary64 value. A finite
  one is a rational number, and the sum or difference of two of them is the exact
  result rounded to the nearest binary64 value, ties to the even significand. The
  quantum of the rounding is \<open>2\<close> to the power \<open>e - 52\<close> for a result of magnitude in
  \<open>[2^e, 2^(e+1))\<close>, and never below \<open>2^-1074\<close> (the subnormal range). MongoDB's
  \<open>$inc\<close> adds doubles in the same arithmetic. The values Infinity and NaN, which
  results of magnitude \<open>2^1024\<close> and above give, are not values of the model.
\<close>

type_synonym number = rat

definition roundHalfEven :: "rat \<Rightarrow> int" where
  "roundHalfEven y =
     (let f = \<lfloor>y\<rfloor>; r = y - of_int f
      in if r < 1 / 2 then f else if 1 / 2 < r then f + 1 else if even f then f else f + 1)"

definition quantumExp :: "rat \<Rightarrow> int" where
  "quantumExp x = max (bitlen \<lfloor>\<bar>x\<bar> * 2 ^ 1074\<rfloor> - 1127) (- 1074)"

definition round64 :: "rat \<Rightarrow> number" where
  "round64 x = of_int (roundHalfEven (x / 2 powi quantumExp x)) * 2 powi quantumExp x"

definition jsAdd :: "number \<Rightarrow> number \<Rightarrow> number" where
  "jsAdd a b = round64 (a + b)"

definition jsSub :: "number \<Rightarrow> number \<Rightarrow> number" where
  "jsSub a b = round64 (a - b)"

subsection \<open>Documents\<close>

datatype app_status =
  Pending | Reviewing | Shortlisted | Interviewing | Offered | Hired | Rejected | Withdrawn

datatype job_status_t = Draft | Active | Paused | Closed | Filled

datatype pay_status_t = PayPending | PayProcessing | PayPaid | PayFailed

datatype actor_model = UserModel | CompanyModel

datatype user_type = UserType | CompanyType

datatype error =
    AccessDenied
  | JobNotFound
  | JobNotAcceptingApplications
  | AlreadyApplied
  | ValidationError
  | ServerError
  | InvalidStatus
  | ApplicationNotFound
  | CannotWithdrawApplication

fun app_status_name :: "app_status \<Rightarrow> string" where
  "app_status_name Pending = ''pending''"
| "app_status_name Reviewing = ''reviewing''"
| "app_status_name Shortlisted = ''shortlisted''"
| "app_status_name Interviewing = ''interviewing''"
| "app_status_name Offered = ''offered''"
| "app_status_name Hired = ''hired''"
| "app_status_name Rejected = ''rejected''"
| "app_status_name Withdrawn = ''withdrawn''"

fun job_status_name :: "job_status_t \<Rightarrow> string" where
  "job_status_name Draft = ''draft''"
| "job_status_name Active = ''active''"
| "job_status_name Paused = ''paused''"
| "job_status_name Closed = ''closed''"
| "job_status_name Filled = ''filled''"

record referral_stats =
  totalReferrals :: number
  successfulReferrals :: number
  totalEarnings :: number
  pendingEarnings :: number
  paidEarnings :: number

record user =
  user_id :: oid
  user_referralCode :: string
  referralStats :: referral_stats

record company_stats =
  totalJobsPosted :: number
  activeJobs :: number
  totalApplications :: number
  totalHires :: number
  totalReferralsPaid :: number

record company =
  company_id :: oid
  cstats :: company_stats

record job_stats =
  views :: number
  applications :: number
  referrals :: number
  referralViews :: number
  referralApplications :: number

record job =
  job_id :: oid
  job_companyId :: oid
  job_title :: string
  referralFee :: number
  referralFeeCurrency :: string
  job_status :: job_status_t
  jstats :: job_stats
  applicationDeadline :: "instant option"
  postedDate :: "instant option"
  closedDate :: "instant option"
  updatedDate :: "instant option"

record history_entry =
  h_status :: app_status
  h_timestamp :: instant
  h_note :: string
  updatedBy :: "oid option"
  updatedByModel :: "actor_model option"

record referral_payment =
  isEligible :: bool
  amount :: number
  currency :: string
  pay_status :: pay_status_t
  paymentReference :: "string option"
  pay_notes :: "string option"

record company_feedback =
  fb_rating :: "number option"
  fb_notes :: "string option"
  fb_strengths :: "string list"
  fb_concerns :: "string list"
  fb_recommendation :: "string option"
  fb_reviewedAt :: "instant option"

record application =
  app_id :: oid
  app_jobId :: oid
  applicantId :: oid
  app_companyId :: oid
  referredBy :: "oid option"
  app_referralCode :: "string option"
  isReferral :: bool
  coverLetter :: "string option"
  app_status :: app_status
  statusHistory :: "history_entry list"
  companyFeedback :: company_feedback
  referralPayment :: referral_payment
  applicationSource :: string
  createdAt :: instant
  updatedAt :: instant

record store =
  db_users :: "user list"
  db_companies :: "company list"
  db_jobs :: "job list"
  db_applications :: "application list"

text \<open>The authenticated caller: \<open>req.user._id\<close> and \<open>req.userType\<close>.\<close>

record caller =
  caller_id :: oid
  caller_type :: user_type

section \<open>Collection primitives\<close>

text \<open>
  \<open>Model.findById\<close> and \<open>Model.findOne\<close> return the first matching document of the
  collection, \<open>Model.findByIdAndUpdate\<close> changes the first document with the given id
  and does nothing when there is none.
\<close>

definition findById :: "('a \<Rightarrow> oid) \<Rightarrow> oid \<Rightarrow> 'a list \<Rightarrow> 'a option" where
  "findById key i xs = find (\<lambda>x. key x = i) xs"

fun updateFirst :: "('a \<Rightarrow> bool) \<Rightarrow> ('a \<Rightarrow> 'a) \<Rightarrow> 'a list \<Rightarrow> 'a list" where
  "updateFirst p f [] = []"
| "updateFirst p f (x # xs) = (if p x then f x # xs else x # updateFirst p f xs)"

definition findByIdAndUpdate :: "('a \<Rightarrow> oid) \<Rightarrow> oid \<Rightarrow> ('a \<Rightarrow> 'a) \<Rightarrow> 'a list \<Rightarrow> 'a list" where
  "findByIdAndUpdate key i f xs = updateFirst (\<lambda>x. key x = i) f xs"

text \<open>
  \<open>String.prototype.toUpperCase\<close> is the Unicode case mapping of the runtime. The
  handlers below take it as their first parameter \<open>upper\<close>, and what is proved of them
  holds for every such function. On a string of ASCII characters the runtime's mapping is
  \<open>asciiUpperCase\<close>, which the examples use.
\<close>

definition asciiUpperChar :: "char \<Rightarrow> char" where
  "asciiUpperChar c =
     (case map_of (zip ''abcdefghijklmnopqrstuvwxyz'' ''ABCDEFGHIJKLMNOPQRSTUVWXYZ'') c of
        None \<Rightarrow> c
      | Some u \<Rightarrow> u)"

definition asciiUpperCase :: "string \<Rightarrow> string" where
  "asciiUpperCase s = map asciiUpperChar s"

text \<open>The decimal digits of a number, as a template literal prints it.\<close>

definition digit_char :: "nat \<Rightarrow> char" where
  "digit_char d = ''0123456789'' ! d"

fun show_nat :: "nat \<Rightarrow> string" where
  "show_nat n = (if n < 10 then [digit_char n] else show_nat (n div 10) @ [digit_char (n mod 10)])"

declare show_nat.simps [simp del]

section \<open>The Application model (models/Application.js)\<close>

definition canBeWithdrawn :: "application \<Rightarrow> bool" where
  "canBeWithdrawn a = (app_status a \<in> set [Pending, Reviewing, Shortlisted])"

definition canBeUpdatedByCompany :: "application \<Rightarrow> bool" where
  "canBeUpdatedByCompany a = (app_status a \<notin> set [Hired, Rejected, Withdrawn])"

text \<open>
  The first pre-save middleware. \<open>statusModified\<close> is \<open>this.isModified('status')\<close>,
  \<open>populatedJob\<close> is the job document when \<open>this.populated('jobId')\<close> holds.
\<close>

definition preSaveStatusHistory ::
  "instant \<Rightarrow> bool \<Rightarrow> bool \<Rightarrow> job option \<Rightarrow> application \<Rightarrow> application" where
  "preSaveStatusHistory now statusModified isNew populatedJob a =
     (let a1 = (if statusModified \<and> \<not> isNew
                then a\<lparr>statusHistory := statusHistory a @
                       [\<lparr>h_status = app_status a, h_timestamp = now,
                         h_note = ''Status changed to '' @ app_status_name (app_status a),
                         updatedBy = None, updatedByModel = None\<rparr>]\<rparr>
                else a)
      in if statusModified \<and> app_status a1 = Hired \<and> isReferral a1
         then
           (let rp = (referralPayment a1)\<lparr>isEligible := True, pay_status := PayPending\<rparr>;
                rp' = (case populatedJob of
                         None \<Rightarrow> rp
                       | Some j \<Rightarrow>
                           if referralFee j = 0 then rp
                           else rp\<lparr>amount := referralFee j,
                                  currency := (if referralFeeCurrency j = [] then ''GBP''
                                               else referralFeeCurrency j)\<rparr>)
            in a1\<lparr>referralPayment := rp'\<rparr>)
         else a1)"

text \<open>The second pre-save middleware.\<close>

definition preSaveApplicationSource :: "bool \<Rightarrow> application \<Rightarrow> application" where
  "preSaveApplicationSource isNew a =
     (if isNew then a\<lparr>applicationSource := (if isReferral a then ''referral'' else ''direct'')\<rparr>
      else a)"

text \<open>The schema's validators for the paths the operations below can write.\<close>

definition validCoverLetter :: "string option \<Rightarrow> bool" where
  "validCoverLetter cl = (case cl of None \<Rightarrow> True | Some s \<Rightarrow> length s \<le> 2000)"

definition validCompanyFeedback :: "company_feedback \<Rightarrow> bool" where
  "validCompanyFeedback fb =
     ((case fb_rating fb of None \<Rightarrow> True | Some r \<Rightarrow> 1 \<le> r \<and> r \<le> 5) \<and>
      (case fb_notes fb of None \<Rightarrow> True | Some s \<Rightarrow> length s \<le> 1000) \<and>
      (case fb_recommendation fb of
         None \<Rightarrow> True
       | Some s \<Rightarrow> s \<in> set [''hire'', ''no-hire'', ''maybe'', ''interview'']))"

text \<open>
  \<open>application.save()\<close> on a document loaded from the store: \<open>orig\<close> is the document
  as it was loaded, \<open>a\<close> the document as the controller changed it. Mongoose validates
  the modified paths (\<open>feedbackModified\<close> says whether \<open>companyFeedback\<close> is one),
  runs the two middlewares, stamps \<open>updatedAt\<close> and writes the document back.
\<close>

definition saveApplication ::
  "instant \<Rightarrow> application \<Rightarrow> bool \<Rightarrow> application \<Rightarrow> store \<Rightarrow> error + (application \<times> store)" where
  "saveApplication now orig feedbackModified a db =
     (if feedbackModified \<and> \<not> validCompanyFeedback (companyFeedback a) then Inl ValidationError
      else
        (let a1 = preSaveStatusHistory now (app_status a \<noteq> app_status orig) False None a;
             a2 = preSaveApplicationSource False a1;
             a3 = a2\<lparr>updatedAt := now\<rparr>
         in Inr (a3, db\<lparr>db_applications :=
                          findByIdAndUpdate app_id (app_id orig) (\<lambda>_. a3) (db_applications db)\<rparr>)))"

text \<open>\<open>Application.create\<close>: the schema defaults, the middlewares on a new document.\<close>

definition newApplication ::
  "instant \<Rightarrow> oid \<Rightarrow> oid \<Rightarrow> oid \<Rightarrow> oid \<Rightarrow> oid option \<Rightarrow> string option \<Rightarrow> bool \<Rightarrow> string option
     \<Rightarrow> application" where
  "newApplication now newId jobId applicant companyId referrer code isRef cover =
     \<lparr>app_id = newId, app_jobId = jobId, applicantId = applicant, app_companyId = companyId,
      referredBy = referrer, app_referralCode = code, isReferral = isRef, coverLetter = cover,
      app_status = Pending, statusHistory = [],
      companyFeedback = \<lparr>fb_rating = None, fb_notes = None, fb_strengths = [], fb_concerns = [],
                          fb_recommendation = None, fb_reviewedAt = None\<rparr>,
      referralPayment = \<lparr>isEligible = False, amount = 0, currency = ''GBP'',
                          pay_status = PayPending, paymentReference = None, pay_notes = None\<rparr>,
      applicationSource = ''direct'', createdAt = now, updatedAt = now\<rparr>"

definition createApplication :: "instant \<Rightarrow> application \<Rightarrow> store \<Rightarrow> error + (application \<times> store)" where
  "createApplication now a db =
     (if \<not> validCoverLetter (coverLetter a) then Inl ValidationError
      else
        (let a1 = preSaveStatusHistory now False True None a;
             a2 = preSaveApplicationSource True a1
         in Inr (a2, db\<lparr>db_applications := db_applications db @ [a2]\<rparr>)))"

section \<open>The User model (models/User.js)\<close>

text \<open>
  The document method \<open>updateReferralStats(type, amount)\<close>, which computes in the
  arithmetic of JavaScript numbers; it saves the document without validation, so a
  counter may become negative.
\<close>

definition updateReferralStats :: "string \<Rightarrow> number \<Rightarrow> user \<Rightarrow> user" where
  "updateReferralStats kind amt u =
     (let rs = referralStats u
      in if kind = ''add_referral''
         then u\<lparr>referralStats := rs\<lparr>totalReferrals := jsAdd (totalReferrals rs) 1\<rparr>\<rparr>
         else if kind = ''successful_referral''
         then u\<lparr>referralStats := rs\<lparr>successfulReferrals := jsAdd (successfulReferrals rs) 1,
                                     pendingEarnings := jsAdd (pendingEarnings rs) amt,
                                     totalEarnings := jsAdd (totalEarnings rs) amt\<rparr>\<rparr>
         else if kind = ''payment_processed''
         then u\<lparr>referralStats := rs\<lparr>pendingEarnings := jsSub (pendingEarnings rs) amt,
                                     paidEarnings := jsAdd (paidEarnings rs) amt\<rparr>\<rparr>
         else u)"

text \<open>The method called on the user document with the given id, and saved.\<close>

definition userUpdateReferralStats :: "oid \<Rightarrow> string \<Rightarrow> number \<Rightarrow> store \<Rightarrow> store" where
  "userUpdateReferralStats uid kind amt db =
     db\<lparr>db_users := findByIdAndUpdate user_id uid (updateReferralStats kind amt) (db_users db)\<rparr>"

section \<open>The application controller (controllers/applicationController.js)\<close>

subsection \<open>The \<open>$inc\<close> updates\<close>

definition incJobApplications :: "bool \<Rightarrow> job \<Rightarrow> job" where
  "incJobApplications isRef j =
     (let st = jstats j;
          st1 = st\<lparr>applications := jsAdd (applications st) 1\<rparr>;
          st2 = (if isRef then st1\<lparr>referralApplications := jsAdd (referralApplications st1) 1\<rparr> else st1)
      in j\<lparr>jstats := st2\<rparr>)"

definition incTotalReferrals :: "user \<Rightarrow> user" where
  "incTotalReferrals u =
     u\<lparr>referralStats := (referralStats u)\<lparr>totalReferrals := jsAdd (totalReferrals (referralStats u)) 1\<rparr>\<rparr>"

definition incSuccessfulReferrals :: "user \<Rightarrow> user" where
  "incSuccessfulReferrals u =
     u\<lparr>referralStats :=
         (referralStats u)\<lparr>successfulReferrals := jsAdd (successfulReferrals (referralStats u)) 1\<rparr>\<rparr>"

definition incEarnings :: "number \<Rightarrow> user \<Rightarrow> user" where
  "incEarnings fee u =
     u\<lparr>referralStats :=
         (referralStats u)\<lparr>pendingEarnings := jsAdd (pendingEarnings (referralStats u)) fee,
                            totalEarnings := jsAdd (totalEarnings (referralStats u)) fee\<rparr>\<rparr>"

definition incTotalApplications :: "company \<Rightarrow> company" where
  "incTotalApplications c =
     c\<lparr>cstats := (cstats c)\<lparr>totalApplications := jsAdd (totalApplications (cstats c)) 1\<rparr>\<rparr>"

definition incTotalHires :: "company \<Rightarrow> company" where
  "incTotalHires c = c\<lparr>cstats := (cstats c)\<lparr>totalHires := jsAdd (totalHires (cstats c)) 1\<rparr>\<rparr>"

subsection \<open>submitApplication\<close>

record application_body =
  ab_jobId :: oid
  ab_coverLetter :: "string option"
  ab_referralCode :: "string option"

text \<open>
  The block "Handle referral tracking": an absent or empty code, a code that no user
  owns and the applicant's own code all give \<open>(null, false)\<close>.
\<close>

definition handleReferralTracking ::
  "(string \<Rightarrow> string) \<Rightarrow> caller \<Rightarrow> string option \<Rightarrow> user list \<Rightarrow> oid option \<times> bool" where
  "handleReferralTracking upper who referralCode users =
     (case referralCode of
        None \<Rightarrow> (None, False)
      | Some code \<Rightarrow>
          if code = [] then (None, False)
          else
            (case find (\<lambda>u. user_referralCode u = upper code) users of
               None \<Rightarrow> (None, False)
             | Some referrer \<Rightarrow>
                 if user_id referrer \<noteq> caller_id who then (Some (user_id referrer), True)
                 else (None, False)))"

text \<open>
  \<open>newId\<close> is the ObjectId the driver gives the new document. The job is loaded with
  its company populated, so a job whose company is gone makes \<open>job.companyId._id\<close>
  throw, which the handler answers with a server error.
\<close>

definition submitApplication ::
  "(string \<Rightarrow> string) \<Rightarrow> instant \<Rightarrow> oid \<Rightarrow> caller \<Rightarrow> application_body \<Rightarrow> store
     \<Rightarrow> (error + application) \<times> store" where
  "submitApplication upper now newId who body db =
     (if caller_type who \<noteq> UserType then (Inl AccessDenied, db)
      else
        (case findById job_id (ab_jobId body) (db_jobs db) of
           None \<Rightarrow> (Inl JobNotFound, db)
         | Some jb \<Rightarrow>
             if job_status jb \<noteq> Active then (Inl JobNotAcceptingApplications, db)
             else
               (case find (\<lambda>a. app_jobId a = ab_jobId body \<and> applicantId a = caller_id who)
                       (db_applications db) of
                  Some existingApplication \<Rightarrow> (Inl AlreadyApplied, db)
                | None \<Rightarrow>
                    (let (referrer, isRef) =
                           handleReferralTracking upper who (ab_referralCode body) (db_users db)
                     in case findById company_id (job_companyId jb) (db_companies db) of
                          None \<Rightarrow> (Inl ServerError, db)
                        | Some owner \<Rightarrow>
                            (case createApplication now
                                    (newApplication now newId (ab_jobId body) (caller_id who)
                                       (company_id owner) referrer
                                       (if isRef then map_option upper (ab_referralCode body)
                                        else None)
                                       isRef (ab_coverLetter body))
                                    db of
                               Inl e \<Rightarrow> (Inl e, db)
                             | Inr (a, db1) \<Rightarrow>
                                 (let db2 = db1\<lparr>db_jobs :=
                                              findByIdAndUpdate job_id (ab_jobId body)
                                                (incJobApplications isRef) (db_jobs db1)\<rparr>;
                                      db3 = (if isRef
                                             then (case referrer of
                                                     None \<Rightarrow> db2
                                                   | Some r \<Rightarrow>
                                                       db2\<lparr>db_users :=
                                                             findByIdAndUpdate user_id r
                                                               incTotalReferrals (db_users db2)\<rparr>)
                                             else db2);
                                      db4 = db3\<lparr>db_companies :=
                                              findByIdAndUpdate company_id (company_id owner)
                                                incTotalApplications (db_companies db3)\<rparr>
                                  in (Inr a, db4)))))))"

subsection \<open>processReferralPayment\<close>

text \<open>
  The helper changes the application document in memory (the caller saves it) and
  increments the referrer's earnings in the store at once.
\<close>

definition processReferralPayment :: "instant \<Rightarrow> application \<Rightarrow> store \<Rightarrow> application \<times> store" where
  "processReferralPayment now a db =
     (if \<not> isReferral a then (a, db)
      else
        (case referredBy a of
           None \<Rightarrow> (a, db)
         | Some referrer \<Rightarrow>
             (case findById job_id (app_jobId a) (db_jobs db) of
                None \<Rightarrow> (a, db)
              | Some jb \<Rightarrow>
                  (a\<lparr>referralPayment :=
                       \<lparr>isEligible = True, amount = referralFee jb,
                        currency = (if referralFeeCurrency jb = [] then ''GBP''
                                    else referralFeeCurrency jb),
                        pay_status = PayPending,
                        paymentReference = Some (''REF-PAY-'' @ show_nat now),
                        pay_notes = Some (''Referral payment for successful hire - '' @ job_title jb)\<rparr>\<rparr>,
                   db\<lparr>db_users :=
                        findByIdAndUpdate user_id referrer (incEarnings (referralFee jb))
                          (db_users db)\<rparr>))))"

subsection \<open>updateApplicationStatus\<close>

record feedback_body =
  fbb_notes :: "string option"
  fbb_strengths :: "string list"
  fbb_concerns :: "string list"
  fbb_recommendation :: "string option"

record status_body =
  sb_id :: oid
  sb_status :: string
  sb_note :: "string option"
  sb_rating :: "number option"
  sb_feedback :: "feedback_body option"

definition validStatuses :: "app_status list" where
  "validStatuses = [Pending, Reviewing, Shortlisted, Interviewing, Offered, Hired, Rejected]"

text \<open>\<open>x || d\<close> on an optional string: the empty string is falsy.\<close>

definition orDefault :: "string option \<Rightarrow> string \<Rightarrow> string" where
  "orDefault x d = (case x of None \<Rightarrow> d | Some s \<Rightarrow> if s = [] then d else s)"

definition truthyNumber :: "number option \<Rightarrow> bool" where
  "truthyNumber x = (case x of None \<Rightarrow> False | Some n \<Rightarrow> n \<noteq> 0)"

definition applyCompanyFeedback ::
  "instant \<Rightarrow> number option \<Rightarrow> feedback_body option \<Rightarrow> company_feedback \<Rightarrow> company_feedback" where
  "applyCompanyFeedback now rating feedback old =
     (let f1 = (if truthyNumber rating then old\<lparr>fb_rating := rating\<rparr> else old);
          f2 = (case feedback of
                  None \<Rightarrow> f1
                | Some f \<Rightarrow> f1\<lparr>fb_notes := fbb_notes f, fb_strengths := fbb_strengths f,
                                fb_concerns := fbb_concerns f,
                                fb_recommendation := fbb_recommendation f\<rparr>)
      in f2\<lparr>fb_reviewedAt := Some now\<rparr>)"

text \<open>
  The block "Handle special status changes": for a referred application that becomes
  hired, the referral payment, the company's hire counter and the referrer's counter of
  successful referrals.
\<close>

definition handleSpecialStatusChanges ::
  "instant \<Rightarrow> caller \<Rightarrow> app_status \<Rightarrow> application \<Rightarrow> store \<Rightarrow> application \<times> store" where
  "handleSpecialStatusChanges now who status a db =
     (if status = Hired \<and> isReferral a
      then
        (let (a', db1) = processReferralPayment now a db;
             db2 = db1\<lparr>db_companies :=
                     findByIdAndUpdate company_id (caller_id who) incTotalHires
                       (db_companies db1)\<rparr>
         in case referredBy a' of
              None \<Rightarrow> (a', db2)
            | Some r \<Rightarrow>
                (a', db2\<lparr>db_users :=
                          findByIdAndUpdate user_id r incSuccessfulReferrals (db_users db2)\<rparr>))
      else (a, db))"

text \<open>
  The blocks "Update application status" and "Update company feedback if provided":
  what the handler writes into the loaded document before the special status changes.
  \<open>feedbackProvided\<close> is the test \<open>rating || feedback\<close>.
\<close>

definition feedbackProvided :: "status_body \<Rightarrow> bool" where
  "feedbackProvided body = (truthyNumber (sb_rating body) \<or> sb_feedback body \<noteq> None)"

definition updateStatusAndFeedback ::
  "instant \<Rightarrow> caller \<Rightarrow> app_status \<Rightarrow> status_body \<Rightarrow> application \<Rightarrow> application" where
  "updateStatusAndFeedback now who status body orig =
     (let a1 = orig\<lparr>app_status := status,
                    statusHistory := statusHistory orig @
                      [\<lparr>h_status = status, h_timestamp = now,
                        h_note = orDefault (sb_note body)
                                   (''Status changed to '' @ app_status_name status),
                        updatedBy = Some (caller_id who),
                        updatedByModel = Some CompanyModel\<rparr>]\<rparr>
      in if feedbackProvided body
         then a1\<lparr>companyFeedback :=
                   applyCompanyFeedback now (sb_rating body) (sb_feedback body)
                     (companyFeedback a1)\<rparr>
         else a1)"

text \<open>
  The status of the body is a string; \<open>validStatuses.includes(status)\<close> accepts the
  names of seven of the eight statuses (not \<open>withdrawn\<close>). The handler never looks at
  the status the application has. An exception of \<open>application.save()\<close> is caught and
  answered with a server error; the increments made before it stay in the store.
\<close>

definition updateApplicationStatus ::
  "instant \<Rightarrow> caller \<Rightarrow> status_body \<Rightarrow> store \<Rightarrow> (error + application) \<times> store" where
  "updateApplicationStatus now who body db =
     (case find (\<lambda>st. app_status_name st = sb_status body) validStatuses of
        None \<Rightarrow> (Inl InvalidStatus, db)
      | Some status \<Rightarrow>
          (case findById app_id (sb_id body) (db_applications db) of
             None \<Rightarrow> (Inl ApplicationNotFound, db)
           | Some orig \<Rightarrow>
               if app_companyId orig \<noteq> caller_id who then (Inl AccessDenied, db)
               else
                 (let a2 = updateStatusAndFeedback now who status body orig;
                      (a3, db3) = handleSpecialStatusChanges now who status a2 db
                  in case saveApplication now orig (feedbackProvided body) a3 db3 of
                       Inl e \<Rightarrow> (Inl ServerError, db3)
                     | Inr (a4, db4) \<Rightarrow> (Inr a4, db4))))"

subsection \<open>withdrawApplication\<close>

record withdraw_body =
  wb_id :: oid
  wb_reason :: "string option"

definition withdrawApplication ::
  "instant \<Rightarrow> caller \<Rightarrow> withdraw_body \<Rightarrow> store \<Rightarrow> (error + application) \<times> store" where
  "withdrawApplication now who body db =
     (case findById app_id (wb_id body) (db_applications db) of
        None \<Rightarrow> (Inl ApplicationNotFound, db)
      | Some orig \<Rightarrow>
          if applicantId orig \<noteq> caller_id who then (Inl AccessDenied, db)
          else if app_status orig \<notin> set [Pending, Reviewing, Shortlisted]
          then (Inl CannotWithdrawApplication, db)
          else
            (let a1 = orig\<lparr>app_status := Withdrawn,
                           statusHistory := statusHistory orig @
                             [\<lparr>h_status = Withdrawn, h_timestamp = now,
                               h_note = orDefault (wb_reason body)
                                          ''Application withdrawn by applicant'',
                               updatedBy = Some (caller_id who),
                               updatedByModel = Some UserModel\<rparr>]\<rparr>
             in case saveApplication now orig False a1 db of
                  Inl e \<Rightarrow> (Inl ServerError, db)
                | Inr (a2, db1) \<Rightarrow> (Inr a2, db1)))"

section \<open>The job controller (controllers/jobController.js)\<close>

definition validDeadline :: "instant \<Rightarrow> instant option \<Rightarrow> bool" where
  "validDeadline now deadline = (case deadline of None \<Rightarrow> True | Some d \<Rightarrow> now < d)"

definition allJobStatuses :: "job_status_t list" where
  "allJobStatuses = [Draft, Active, Paused, Closed, Filled]"

text \<open>\<open>x || d\<close> on an optional number: zero is falsy.\<close>

definition numberOr :: "number option \<Rightarrow> number \<Rightarrow> number" where
  "numberOr x d = (case x of None \<Rightarrow> d | Some n \<Rightarrow> if n = 0 then d else n)"

definition incActiveJobs :: "number \<Rightarrow> company \<Rightarrow> company" where
  "incActiveJobs k c = c\<lparr>cstats := (cstats c)\<lparr>activeJobs := jsAdd (activeJobs (cstats c)) k\<rparr>\<rparr>"

definition incJobsPosted :: "bool \<Rightarrow> company \<Rightarrow> company" where
  "incJobsPosted alsoActive c =
     (let st = (cstats c)\<lparr>totalJobsPosted := jsAdd (totalJobsPosted (cstats c)) 1\<rparr>
      in c\<lparr>cstats := (if alsoActive then st\<lparr>activeJobs := jsAdd (activeJobs st) 1\<rparr> else st)\<rparr>)"

subsection \<open>createJob\<close>

text \<open>
  The body of a job request. \<open>jb_fieldsValid\<close> is the outcome of the schema's
  validators on the fields that are not modelled (title length, description, job type
  and the like); the status, the referral fee and the application deadline are validated
  below. The validator of the deadline accepts an absent deadline and one later than
  the clock.
\<close>

record job_body =
  jb_title :: string
  jb_referralFee :: "number option"
  jb_status :: "string option"
  jb_applicationDeadline :: "instant option"
  jb_fieldsValid :: bool

text \<open>
  The job is created with \<open>status || 'active'\<close>, while the company's counter of active
  jobs is incremented under the test \<open>status === 'active'\<close> on the status of the body.
\<close>

definition createJob ::
  "instant \<Rightarrow> oid \<Rightarrow> caller \<Rightarrow> job_body \<Rightarrow> store \<Rightarrow> (error + job) \<times> store" where
  "createJob now newId who body db =
     (if caller_type who \<noteq> CompanyType then (Inl AccessDenied, db)
      else
        (case find (\<lambda>st. job_status_name st = orDefault (jb_status body) ''active'')
                allJobStatuses of
           None \<Rightarrow> (Inl ValidationError, db)
         | Some status \<Rightarrow>
             if numberOr (jb_referralFee body) 1000 < 0 then (Inl ValidationError, db)
             else if \<not> validDeadline now (jb_applicationDeadline body)
             then (Inl ValidationError, db)
             else if \<not> jb_fieldsValid body then (Inl ValidationError, db)
             else
               (let jb = \<lparr>job_id = newId, job_companyId = caller_id who,
                          job_title = jb_title body,
                          referralFee = numberOr (jb_referralFee body) 1000,
                          referralFeeCurrency = ''GBP'', job_status = status,
                          jstats = \<lparr>views = 0, applications = 0, referrals = 0,
                                    referralViews = 0, referralApplications = 0\<rparr>,
                          applicationDeadline = jb_applicationDeadline body,
                          postedDate = Some now, closedDate = None, updatedDate = Some now\<rparr>;
                    db1 = db\<lparr>db_jobs := db_jobs db @ [jb]\<rparr>;
                    db2 = db1\<lparr>db_companies :=
                            findByIdAndUpdate company_id (caller_id who)
                              (incJobsPosted (jb_status body = Some ''active''))
                              (db_companies db1)\<rparr>
                in (Inr jb, db2))))"

subsection \<open>updateJob\<close>

text \<open>
  The generic update writes the fields of the body into the job with
  \<open>findByIdAndUpdate\<close> and the validators of the paths it writes; it touches no
  company counter.
\<close>

record job_update_body =
  ju_id :: oid
  ju_title :: "string option"
  ju_referralFee :: "number option"
  ju_status :: "string option"
  ju_applicationDeadline :: "instant option"
  ju_fieldsValid :: bool

definition updateJob ::
  "instant \<Rightarrow> caller \<Rightarrow> job_update_body \<Rightarrow> store \<Rightarrow> (error + job) \<times> store" where
  "updateJob now who body db =
     (case findById job_id (ju_id body) (db_jobs db) of
        None \<Rightarrow> (Inl JobNotFound, db)
      | Some jb \<Rightarrow>
          if job_companyId jb \<noteq> caller_id who then (Inl AccessDenied, db)
          else
            (case (case ju_status body of
                     None \<Rightarrow> Some (job_status jb)
                   | Some s \<Rightarrow> find (\<lambda>st. job_status_name st = s) allJobStatuses) of
               None \<Rightarrow> (Inl ValidationError, db)
             | Some status \<Rightarrow>
                 if (case ju_referralFee body of None \<Rightarrow> False | Some f \<Rightarrow> f < 0)
                 then (Inl ValidationError, db)
                 else if \<not> validDeadline now (ju_applicationDeadline body)
                 then (Inl ValidationError, db)
                 else if \<not> ju_fieldsValid body then (Inl ValidationError, db)
                 else
                   (let updatedJob =
                          jb\<lparr>job_title := (case ju_title body of None \<Rightarrow> job_title jb | Some t \<Rightarrow> t),
                             referralFee := (case ju_referralFee body of
                                               None \<Rightarrow> referralFee jb | Some f \<Rightarrow> f),
                             job_status := status,
                             applicationDeadline :=
                               (case ju_applicationDeadline body of
                                  None \<Rightarrow> applicationDeadline jb | Some d \<Rightarrow> Some d),
                             updatedDate := Some now\<rparr>
                    in (Inr updatedJob,
                        db\<lparr>db_jobs := findByIdAndUpdate job_id (ju_id body) (\<lambda>_. updatedJob)
                                         (db_jobs db)\<rparr>))))"

subsection \<open>updateJobStatus\<close>

record job_status_body =
  js_id :: oid
  js_status :: "string option"

definition updateJobStatus ::
  "instant \<Rightarrow> caller \<Rightarrow> job_status_body \<Rightarrow> store \<Rightarrow> (error + job) \<times> store" where
  "updateJobStatus now who body db =
     (case (case js_status body of
              None \<Rightarrow> None
            | Some s \<Rightarrow> find (\<lambda>st. job_status_name st = s) allJobStatuses) of
        None \<Rightarrow> (Inl InvalidStatus, db)
      | Some status \<Rightarrow>
          (case findById job_id (js_id body) (db_jobs db) of
             None \<Rightarrow> (Inl JobNotFound, db)
           | Some jb \<Rightarrow>
               if job_companyId jb \<noteq> caller_id who then (Inl AccessDenied, db)
               else
                 (let oldStatus = job_status jb;
                      j1 = jb\<lparr>job_status := status\<rparr>;
                      j2 = (if status = Active \<and> oldStatus = Draft
                            then j1\<lparr>postedDate := Some now\<rparr> else j1);
                      j3 = (if status \<in> set [Closed, Filled]
                            then j2\<lparr>closedDate := Some now\<rparr> else j2);
                      j4 = (if j3 = jb then j3 else j3\<lparr>updatedDate := Some now\<rparr>);
                      db1 = db\<lparr>db_jobs := findByIdAndUpdate job_id (js_id body) (\<lambda>_. j4)
                                             (db_jobs db)\<rparr>;
                      db2 = (if status = Active \<and> oldStatus \<noteq> Active
                             then db1\<lparr>db_companies :=
                                       findByIdAndUpdate company_id (caller_id who)
                                         (incActiveJobs 1) (db_companies db1)\<rparr>
                             else if status \<noteq> Active \<and> oldStatus = Active
                             then db1\<lparr>db_companies :=
                                       findByIdAndUpdate company_id (caller_id who)
                                         (incActiveJobs (- 1)) (db_companies db1)\<rparr>
                             else db1)
                  in (Inr j4, db2))))"

subsection \<open>cleanupExpiredJobs\<close>

definition isExpired :: "instant \<Rightarrow> job \<Rightarrow> bool" where
  "isExpired now jb =
     (job_status jb = Active \<and>
      (case applicationDeadline jb of None \<Rightarrow> False | Some d \<Rightarrow> d < now))"

definition cleanupExpiredJobs :: "instant \<Rightarrow> store \<Rightarrow> store" where
  "cleanupExpiredJobs now db =
     (let expiredJobs = filter (isExpired now) (db_jobs db)
      in if expiredJobs = [] then db
         else
           (let db1 = db\<lparr>db_jobs :=
                         map (\<lambda>jb. if isExpired now jb
                                   then jb\<lparr>job_status := Closed, closedDate := Some now\<rparr>
                                   else jb)
                           (db_jobs db)\<rparr>
            in fold (\<lambda>jb d. d\<lparr>db_companies :=
                               findByIdAndUpdate company_id (job_companyId jb)
                                 (incActiveJobs (- 1)) (db_companies d)\<rparr>)
                 expiredJobs db1))"

section \<open>Invariants and sequences of operations\<close>

text \<open>The live count of a company's active jobs.\<close>

definition activeJobCount :: "store \<Rightarrow> oid \<Rightarrow> int" where
  "activeJobCount db cid =
     int (length (filter (\<lambda>jb. job_companyId jb = cid \<and> job_status jb = Active) (db_jobs db)))"

text \<open>
  The earnings of a user balance: what was earned is pending or paid. The sum is the
  sum of the two rationals.
\<close>

definition earningsBalanced :: "user \<Rightarrow> bool" where
  "earningsBalanced u =
     (totalEarnings (referralStats u) =
        pendingEarnings (referralStats u) + paidEarnings (referralStats u))"

text \<open>
  The operations on the store, each with the values it takes from its environment
  (the runtime's upper-casing, the clock, the fresh identifier, the caller and the body). The payout process is
  outside the repository's controllers; what it does to a user is the method
  \<open>updateReferralStats\<close> with the type \<open>payment_processed\<close>.
\<close>

datatype operation =
    SubmitApplication "string \<Rightarrow> string" instant oid caller application_body
  | UpdateApplicationStatus instant caller status_body
  | WithdrawApplication instant caller withdraw_body
  | UpdateReferralStats oid string number
  | CreateJob instant oid caller job_body
  | UpdateJob instant caller job_update_body
  | UpdateJobStatus instant caller job_status_body
  | CleanupExpiredJobs instant

fun applyOperation :: "operation \<Rightarrow> store \<Rightarrow> store" where
  "applyOperation (SubmitApplication upper now newId who body) db =
     snd (submitApplication upper now newId who body db)"
| "applyOperation (UpdateApplicationStatus now who body) db =
     snd (updateApplicationStatus now who body db)"
| "applyOperation (WithdrawApplication now who body) db =
     snd (withdrawApplication now who body db)"
| "applyOperation (UpdateReferralStats uid kind amt) db = userUpdateReferralStats uid kind amt db"
| "applyOperation (CreateJob now newId who body) db = snd (createJob now newId who body db)"
| "applyOperation (UpdateJob now who body) db = snd (updateJob now who body db)"
| "applyOperation (UpdateJobStatus now who body) db = snd (updateJobStatus now who body db)"
| "applyOperation (CleanupExpiredJobs now) db = cleanupExpiredJobs now db"

definition runOperations :: "operation list \<Rightarrow> store \<Rightarrow> store" where
  "runOperations ops db = fold applyOperation ops db"

text \<open>
  The range in which the arithmetic of the counters is exact: integers of magnitude at
  most a bound \<open>B\<close>, for the three earnings of a user, the referral fee of a job and
  the amounts an operation brings (the amount of \<open>updateReferralStats\<close>, the referral
  fee of a job body).
\<close>

definition integerWithin :: "number \<Rightarrow> number \<Rightarrow> bool" where
  "integerWithin B x = (of_int \<lfloor>x\<rfloor> = x \<and> \<bar>x\<bar> \<le> B)"

definition earningsWithin :: "number \<Rightarrow> user \<Rightarrow> bool" where
  "earningsWithin B u =
     (integerWithin B (totalEarnings (referralStats u)) \<and>
      integerWithin B (pendingEarnings (referralStats u)) \<and>
      integerWithin B (paidEarnings (referralStats u)))"

definition feeWithin :: "number \<Rightarrow> job \<Rightarrow> bool" where
  "feeWithin B jb = integerWithin B (referralFee jb)"

fun amountsWithin :: "number \<Rightarrow> operation \<Rightarrow> bool" where
  "amountsWithin B (UpdateReferralStats uid kind amt) = integerWithin B amt"
| "amountsWithin B (CreateJob now newId who body) =
     integerWithin B (numberOr (jb_referralFee body) 1000)"
| "amountsWithin B (UpdateJob now who body) =
     (case ju_referralFee body of None \<Rightarrow> True | Some f \<Rightarrow> integerWithin B f)"
| "amountsWithin B (SubmitApplication upper now newId who body) = True"
| "amountsWithin B (UpdateApplicationStatus now who body) = True"
| "amountsWithin B (WithdrawApplication now who body) = True"
| "amountsWithin B (UpdateJobStatus now who body) = True"
| "amountsWithin B (CleanupExpiredJobs now) = True"

section \<open>An example store\<close>

text \<open>
  The scenario of the specification: user A owns the referral code
  \<open>REF-JOHN-123456\<close>, company C has posted the active job J with a referral fee of
  1000, user B applies with A's code and is hired.
\<close>

definition zeroReferralStats :: referral_stats where
  "zeroReferralStats = \<lparr>totalReferrals = 0, successfulReferrals = 0, totalEarnings = 0,
                         pendingEarnings = 0, paidEarnings = 0\<rparr>"

definition userA :: user where
  "userA = \<lparr>user_id = 1, user_referralCode = ''REF-JOHN-123456'', referralStats = zeroReferralStats\<rparr>"

definition userB :: user where
  "userB = \<lparr>user_id = 2, user_referralCode = ''REF-MARY-654321'', referralStats = zeroReferralStats\<rparr>"

definition companyC :: company where
  "companyC = \<lparr>company_id = 10,
               cstats = \<lparr>totalJobsPosted = 1, activeJobs = 1, totalApplications = 0,
                         totalHires = 0, totalReferralsPaid = 0\<rparr>\<rparr>"

definition jobJ :: job where
  "jobJ = \<lparr>job_id = 100, job_companyId = 10, job_title = ''Engineer'', referralFee = 1000,
           referralFeeCurrency = ''GBP'', job_status = Active,
           jstats = \<lparr>views = 0, applications = 0, referrals = 0, referralViews = 0,
                     referralApplications = 0\<rparr>,
           applicationDeadline = None, postedDate = Some 1, closedDate = None,
           updatedDate = Some 1\<rparr>"

definition store0 :: store where
  "store0 = \<lparr>db_users = [userA, userB], db_companies = [companyC], db_jobs = [jobJ],
             db_applications = []\<rparr>"

definition callerA :: caller where
  "callerA = \<lparr>caller_id = 1, caller_type = UserType\<rparr>"

definition callerB :: caller where
  "callerB = \<lparr>caller_id = 2, caller_type = UserType\<rparr>"

definition callerC :: caller where
  "callerC = \<lparr>caller_id = 10, caller_type = CompanyType\<rparr>"

text \<open>B applies for J with A's code, written in lower case.\<close>

definition referredBody :: application_body where
  "referredBody = \<lparr>ab_jobId = 100, ab_coverLetter = None,
                   ab_referralCode = Some ''ref-john-123456''\<rparr>"

definition applicationB :: application where
  "applicationB = newApplication 5 1000 100 2 10 (Some 1) (Some ''REF-JOHN-123456'') True None
                    \<lparr>applicationSource := ''referral''\<rparr>"

definition store1 :: store where
  "store1 = \<lparr>db_users = [incTotalReferrals userA, userB],
             db_companies = [incTotalApplications companyC],
             db_jobs = [incJobApplications True jobJ],
             db_applications = [applicationB]\<rparr>"

text \<open>The company hires B.\<close>

definition hireBody :: status_body where
  "hireBody = \<lparr>sb_id = 1000, sb_status = ''hired'', sb_note = Some ''Candidate hired!'',
               sb_rating = None, sb_feedback = None\<rparr>"

definition applicationHired :: application where
  "applicationHired =
     applicationB\<lparr>app_status := Hired,
       statusHistory :=
         [\<lparr>h_status = Hired, h_timestamp = 40, h_note = ''Candidate hired!'',
           updatedBy = Some 10, updatedByModel = Some CompanyModel\<rparr>,
          \<lparr>h_status = Hired, h_timestamp = 40, h_note = ''Status changed to hired'',
           updatedBy = None, updatedByModel = None\<rparr>],
       referralPayment :=
         \<lparr>isEligible = True, amount = 1000, currency = ''GBP'', pay_status = PayPending,
          paymentReference = Some ''REF-PAY-40'',
          pay_notes = Some ''Referral payment for successful hire - Engineer''\<rparr>,
       updatedAt := 40\<rparr>"

definition store2 :: store where
  "store2 = \<lparr>db_users = [incSuccessfulReferrals (incEarnings 1000 (incTotalReferrals userA)), userB],
             db_companies = [incTotalHires (incTotalApplications companyC)],
             db_jobs = [incJobApplications True jobJ],
             db_applications = [applicationHired]\<rparr>"

text \<open>The company then sets the hired application back to pending.\<close>

definition reopenBody :: status_body where
  "reopenBody = \<lparr>sb_id = 1000, sb_status = ''pending'', sb_note = None, sb_rating = None,
                 sb_feedback = None\<rparr>"

definition applicationReopened :: application where
  "applicationReopened =
     applicationHired\<lparr>app_status := Pending,
       statusHistory := statusHistory applicationHired @
         [\<lparr>h_status = Pending, h_timestamp = 50, h_note = ''Status changed to pending'',
           updatedBy = Some 10, updatedByModel = Some CompanyModel\<rparr>,
          \<lparr>h_status = Pending, h_timestamp = 50, h_note = ''Status changed to pending'',
           updatedBy = None, updatedByModel = None\<rparr>],
       updatedAt := 50\<rparr>"

text \<open>Instead of being hired, B withdraws.\<close>

definition withdrawBody :: withdraw_body where
  "withdrawBody = \<lparr>wb_id = 1000, wb_reason = None\<rparr>"

definition applicationWithdrawn :: application where
  "applicationWithdrawn =
     applicationB\<lparr>app_status := Withdrawn,
       statusHistory :=
         [\<lparr>h_status = Withdrawn, h_timestamp = 20, h_note = ''Application withdrawn by applicant'',
           updatedBy = Some 2, updatedByModel = Some UserModel\<rparr>,
          \<lparr>h_status = Withdrawn, h_timestamp = 20, h_note = ''Status changed to withdrawn'',
           updatedBy = None, updatedByModel = None\<rparr>],
       updatedAt := 20\<rparr>"

definition storeWithdrawn :: store where
  "storeWithdrawn = store1\<lparr>db_applications := [applicationWithdrawn]\<rparr>"

text \<open>A applies for J with A's own code.\<close>

definition applicationSelf :: application where
  "applicationSelf = newApplication 5 1000 100 1 10 None None False None"

definition storeSelf :: store where
  "storeSelf = \<lparr>db_users = [userA, userB], db_companies = [incTotalApplications companyC],
                db_jobs = [incJobApplications False jobJ], db_applications = [applicationSelf]\<rparr>"

text \<open>A company that has posted nothing yet, and two bodies of job requests.\<close>

definition companyNew :: company where
  "companyNew = \<lparr>company_id = 10,
                 cstats = \<lparr>totalJobsPosted = 0, activeJobs = 0, totalApplications = 0,
                           totalHires = 0, totalReferralsPaid = 0\<rparr>\<rparr>"

definition storeNew :: store where
  "storeNew = \<lparr>db_users = [], db_companies = [companyNew], db_jobs = [], db_applications = []\<rparr>"

definition jobBodyDefault :: job_body where
  "jobBodyDefault = \<lparr>jb_title = ''Engineer'', jb_referralFee = None, jb_status = None,
                     jb_applicationDeadline = None, jb_fieldsValid = True\<rparr>"

definition pauseBody :: job_update_body where
  "pauseBody = \<lparr>ju_id = 100, ju_title = None, ju_referralFee = None, ju_status = Some ''paused'',
                ju_applicationDeadline = None, ju_fieldsValid = True\<rparr>"

text \<open>The company pauses J through the status request, after B has applied.\<close>

definition pauseStatusBody :: job_status_body where
  "pauseStatusBody = \<lparr>js_id = 100, js_status = Some ''paused''\<rparr>"

definition storePaused :: store where
  "storePaused =
     store1\<lparr>db_jobs :=
              [incJobApplications True jobJ\<lparr>job_status := Paused, updatedDate := Some 30\<rparr>],
            db_companies := [incActiveJobs (- 1) (incTotalApplications companyC)]\<rparr>"

text \<open>
  Two jobs whose referral fees are the numbers \<open>0.1\<close> and \<open>0.3\<close> of a request
  body, each with a pending application that A referred, and the requests that hire both
  and pay both out.
\<close>

definition jobTenth :: job where
  "jobTenth = jobJ\<lparr>job_id := 101, referralFee := round64 (1 / 10)\<rparr>"

definition jobThreeTenths :: job where
  "jobThreeTenths = jobJ\<lparr>job_id := 103, referralFee := round64 (3 / 10)\<rparr>"

definition applicationTenth :: application where
  "applicationTenth =
     newApplication 5 1001 101 2 10 (Some 1) (Some ''REF-JOHN-123456'') True None
       \<lparr>applicationSource := ''referral''\<rparr>"

definition applicationThreeTenths :: application where
  "applicationThreeTenths =
     newApplication 6 1003 103 2 10 (Some 1) (Some ''REF-JOHN-123456'') True None
       \<lparr>applicationSource := ''referral''\<rparr>"

definition storeFractions :: store where
  "storeFractions = \<lparr>db_users = [userA, userB], db_companies = [companyC],
                     db_jobs = [jobTenth, jobThreeTenths],
                     db_applications = [applicationTenth, applicationThreeTenths]\<rparr>"

definition hireTenth :: status_body where
  "hireTenth = \<lparr>sb_id = 1001, sb_status = ''hired'', sb_note = None, sb_rating = None,
                sb_feedback = None\<rparr>"

definition hireThreeTenths :: status_body where
  "hireThreeTenths = \<lparr>sb_id = 1003, sb_status = ''hired'', sb_note = None, sb_rating = None,
                      sb_feedback = None\<rparr>"

definition fractionOperations :: "operation list" where
  "fractionOperations =
     [UpdateApplicationStatus 40 callerC hireTenth,
      UpdateApplicationStatus 41 callerC hireThreeTenths,
      UpdateReferralStats 1 ''payment_processed'' (round64 (1 / 10)),
      UpdateReferralStats 1 ''payment_processed'' (round64 (3 / 10))]"

text \<open>The scenario of the specification as a list of operations, with the payout.\<close>

definition scenarioOperations :: "operation list" where
  "scenarioOperations =
     [SubmitApplication asciiUpperCase 5 1000 callerB referredBody,
      UpdateApplicationStatus 40 callerC hireBody,
      UpdateReferralStats 1 ''payment_processed'' 1000]"

section \<open>Lemmas on the arithmetic of numbers\<close>

lemma roundHalfEven_of_int [simp]: "roundHalfEven (of_int n) = n"
  by (simp add: roundHalfEven_def)

lemma bitlen_eqI:
  assumes "2 ^ k \<le> n" and "n < 2 ^ Suc k"
  shows "bitlen n = int k + 1"
proof -
  have pos: "0 < n" using assms(1) by (smt (verit) zero_less_power)
  from bitlen_bounds [OF pos]
  have lo: "2 ^ nat (bitlen n - 1) \<le> n" and hi: "n < 2 ^ nat (bitlen n)" by simp_all
  from lo assms(2) have a0: "(2::int) ^ nat (bitlen n - 1) < 2 ^ Suc k" by linarith
  have a: "nat (bitlen n - 1) < Suc k"
    by (rule power_less_imp_less_exp [of "2::int"]) (simp, fact a0)
  from assms(1) hi have b0: "(2::int) ^ k < 2 ^ nat (bitlen n)" by linarith
  have b: "k < nat (bitlen n)"
    by (rule power_less_imp_less_exp [of "2::int"]) (simp, fact b0)
  from a b show ?thesis by linarith
qed

lemma quantumExp_normal:
  assumes lo: "2 powi e \<le> \<bar>x\<bar>" and hi: "\<bar>x\<bar> < 2 powi (e + 1)" and e: "- 1022 \<le> e"
  shows "quantumExp x = e - 52"
proof -
  define k where "k = nat (e + 1074)"
  have ek: "e + 1074 = int k" using e by (simp add: k_def)
  have p1: "(2::rat) powi e * 2 ^ 1074 = 2 ^ k"
  proof -
    have "(2::rat) powi e * 2 ^ 1074 = 2 powi e * 2 powi 1074" by simp
    also have "\<dots> = 2 powi (e + 1074)" by (simp add: power_int_add)
    also have "\<dots> = 2 ^ k" by (simp add: ek)
    finally show ?thesis .
  qed
  have p2: "(2::rat) powi (e + 1) * 2 ^ 1074 = 2 ^ Suc k"
  proof -
    have "(2::rat) powi (e + 1) * 2 ^ 1074 = 2 powi (e + 1) * 2 powi 1074" by simp
    also have "\<dots> = 2 powi (e + 1 + 1074)" by (simp add: power_int_add)
    also have "\<dots> = 2 powi (int (Suc k))"
    proof -
      have "e + 1 + 1074 = int (Suc k)" using ek by simp
      then show ?thesis by (simp only:)
    qed
    also have "\<dots> = 2 ^ Suc k" by (rule power_int_of_nat)
    finally show ?thesis .
  qed
  have l: "(2::rat) ^ k \<le> \<bar>x\<bar> * 2 ^ 1074"
    using lo p1 by (metis mult_right_mono zero_le_numeral zero_le_power)
  have h: "\<bar>x\<bar> * 2 ^ 1074 < (2::rat) ^ Suc k"
    using hi p2 by (metis mult_strict_right_mono zero_less_numeral zero_less_power)
  have fl: "(2::int) ^ k \<le> \<lfloor>\<bar>x\<bar> * 2 ^ 1074\<rfloor>"
    using l by (simp add: le_floor_iff)
  have fh: "\<lfloor>\<bar>x\<bar> * 2 ^ 1074\<rfloor> < (2::int) ^ Suc k"
    using h by (simp add: floor_less_iff)
  from bitlen_eqI [OF fl fh] have "bitlen \<lfloor>\<bar>x\<bar> * 2 ^ 1074\<rfloor> = int k + 1" .
  then show ?thesis unfolding quantumExp_def using ek e by simp
qed

lemma round64_normal:
  assumes "2 powi e \<le> \<bar>x\<bar>" and "\<bar>x\<bar> < 2 powi (e + 1)" and "- 1022 \<le> e"
  shows "round64 x = of_int (roundHalfEven (x / 2 powi (e - 52))) * 2 powi (e - 52)"
  unfolding round64_def quantumExp_normal [OF assms] ..

lemma round64_0 [simp]: "round64 0 = 0"
  using roundHalfEven_of_int [of 0] by (simp add: round64_def)

lemma bitlen_le:
  assumes "0 < n" and "n < 2 ^ k"
  shows "bitlen n \<le> int k"
proof -
  from bitlen_bounds [OF assms(1)] assms(2)
  have c0: "(2::int) ^ nat (bitlen n - 1) < 2 ^ k" by linarith
  have "nat (bitlen n - 1) < k"
    by (rule power_less_imp_less_exp [of "2::int"]) (simp, fact c0)
  then show ?thesis by linarith
qed

lemma round64_of_int:
  assumes "\<bar>n\<bar> < 2 ^ 53"
  shows "round64 (of_int n) = of_int n"
proof (cases "n = 0")
  case True
  then show ?thesis by simp
next
  case False
  then have pos: "0 < \<bar>n\<bar>" by simp
  have fl: "\<lfloor>\<bar>of_int n :: rat\<bar> * 2 ^ 1074\<rfloor> = \<bar>n\<bar> * 2 ^ 1074"
  proof -
    have "\<bar>of_int n :: rat\<bar> * 2 ^ 1074 = of_int (\<bar>n\<bar> * 2 ^ 1074)" by simp
    then show ?thesis by (simp only: floor_of_int)
  qed
  have bl: "bitlen (\<bar>n\<bar> * 2 ^ 1074) = bitlen \<bar>n\<bar> + 1074"
    using bitlen_pow2 [OF pos, of 1074] by simp
  have le: "bitlen \<bar>n\<bar> \<le> 53" using bitlen_le [OF pos assms] by simp
  define t where "t = quantumExp (of_int n)"
  have t: "t = max (bitlen \<bar>n\<bar> - 53) (- 1074)"
    unfolding t_def quantumExp_def fl bl by simp
  then have t0: "t \<le> 0" using le by simp
  define k where "k = nat (- t)"
  have tk: "t = - int k" using t0 by (simp add: k_def)
  have pw: "(2::rat) powi t = inverse (2 ^ k)"
    by (simp add: tk power_int_minus)
  have "(of_int n :: rat) / 2 powi t = of_int (n * 2 ^ k)"
    by (simp add: pw divide_inverse)
  then have "roundHalfEven ((of_int n :: rat) / 2 powi t) = n * 2 ^ k"
    by (simp only: roundHalfEven_of_int)
  then have "round64 (of_int n) = of_int (n * 2 ^ k) * inverse (2 ^ k)"
    unfolding round64_def t_def [symmetric] pw by simp
  then show ?thesis by simp
qed

lemma jsAdd_exact:
  assumes "a \<in> \<int>" and "b \<in> \<int>" and "\<bar>a + b\<bar> < 2 ^ 53"
  shows "jsAdd a b = a + b"
proof -
  from assms(1,2) obtain m n where [simp]: "a = of_int m" "b = of_int n"
    by (auto elim!: Ints_cases)
  have "\<bar>m + n\<bar> < 2 ^ 53"
  proof -
    have "(of_int \<bar>m + n\<bar> :: rat) < of_int (2 ^ 53)" using assms(3) by simp
    then show ?thesis by (simp only: of_int_less_iff)
  qed
  from round64_of_int [OF this] show ?thesis by (simp add: jsAdd_def)
qed

lemma jsSub_exact:
  assumes "a \<in> \<int>" and "b \<in> \<int>" and "\<bar>a - b\<bar> < 2 ^ 53"
  shows "jsSub a b = a - b"
proof -
  from assms(1,2) obtain m n where [simp]: "a = of_int m" "b = of_int n"
    by (auto elim!: Ints_cases)
  have "\<bar>m - n\<bar> < 2 ^ 53"
  proof -
    have "(of_int \<bar>m - n\<bar> :: rat) < of_int (2 ^ 53)" using assms(3) by simp
    then show ?thesis by (simp only: of_int_less_iff)
  qed
  from round64_of_int [OF this] show ?thesis by (simp add: jsSub_def)
qed

lemma floor_numeral_div:
  "\<lfloor>numeral a / numeral b :: rat\<rfloor> = numeral a div numeral b"
  using floor_divide_of_int_eq [of "numeral a" "numeral b", where ?'a = rat] by simp

lemma integerWithin_Ints: "integerWithin B x \<Longrightarrow> x \<in> \<int>"
  unfolding integerWithin_def by (metis Ints_of_int)

lemma integerWithin_abs: "integerWithin B x \<Longrightarrow> \<bar>x\<bar> \<le> B"
  unfolding integerWithin_def by simp

lemma integerWithinI: "x \<in> \<int> \<Longrightarrow> \<bar>x\<bar> \<le> B \<Longrightarrow> integerWithin B x"
  unfolding integerWithin_def by (auto elim!: Ints_cases)

lemma integerWithin_mono: "integerWithin B x \<Longrightarrow> B \<le> C \<Longrightarrow> integerWithin C x"
  unfolding integerWithin_def by simp

section \<open>Lemmas on the collection primitives\<close>

lemma find_updateFirst_same:
  assumes "\<And>x. p x \<Longrightarrow> p (f x)"
  shows "find p (updateFirst p f xs) = map_option f (find p xs)"
  using assms by (induction xs) auto

lemma updateFirst_split:
  "find p xs = Some a \<Longrightarrow>
     \<exists>pre post. xs = pre @ a # post \<and> updateFirst p f xs = pre @ f a # post"
proof (induction xs)
  case Nil
  then show ?case by simp
next
  case (Cons x xs)
  show ?case
  proof (cases "p x")
    case True
    with Cons.prems have "x = a" by simp
    with True show ?thesis by (intro exI [of _ "[]"] exI [of _ xs]) simp
  next
    case False
    with Cons.prems have "find p xs = Some a" by simp
    from Cons.IH [OF this] obtain pre post
      where "xs = pre @ a # post" "updateFirst p f xs = pre @ f a # post" by blast
    with False show ?thesis by (intro exI [of _ "x # pre"] exI [of _ post]) simp
  qed
qed

lemma map_updateFirst:
  assumes "\<And>x. g (f x) = g x"
  shows "map g (updateFirst p f xs) = map g xs"
  using assms by (induction xs) auto

lemma list_all_updateFirst:
  assumes "list_all P xs" and "\<And>x. P x \<Longrightarrow> P (f x)"
  shows "list_all P (updateFirst p f xs)"
  using assms by (induction xs) auto

lemma findById_key: "findById key i xs = Some x \<Longrightarrow> key x = i"
  by (auto simp: findById_def find_Some_iff)

lemma findById_update_same:
  assumes "\<And>x. key x = i \<Longrightarrow> key (f x) = i"
  shows "findById key i (findByIdAndUpdate key i f xs) = map_option f (findById key i xs)"
  unfolding findById_def findByIdAndUpdate_def
  by (rule find_updateFirst_same) (simp add: assms)

lemma find_distinct_key:
  assumes "distinct (map f xs)" and "x \<in> set xs"
  shows "find (\<lambda>y. f y = f x) xs = Some x"
  using assms by (induction xs) auto

lemma findById_mem: "findById key i xs = Some x \<Longrightarrow> x \<in> set xs"
  by (auto simp: findById_def find_Some_iff)

lemma list_all_updateFirst_weaken:
  assumes "list_all P xs" and "\<And>x. P x \<Longrightarrow> Q (f x)" and "\<And>x. P x \<Longrightarrow> Q x"
  shows "list_all Q (updateFirst p f xs)"
  using assms by (induction xs) (auto simp: list_all_iff)

lemma list_all_updateFirst_const:
  assumes "list_all P xs" and "P y"
  shows "list_all P (updateFirst p (\<lambda>_. y) xs)"
  using assms by (induction xs) auto

section \<open>Lemmas on the application model and controller\<close>

lemma processReferralPayment_app:
  "processReferralPayment now a db = (a', db') \<Longrightarrow> \<exists>rp. a' = a\<lparr>referralPayment := rp\<rparr>"
  unfolding processReferralPayment_def
  by (auto split: if_splits option.splits intro: exI [of _ "referralPayment a"])

lemma processReferralPayment_store:
  "processReferralPayment now a db = (a', db') \<Longrightarrow>
     db_jobs db' = db_jobs db \<and> db_companies db' = db_companies db \<and>
     db_applications db' = db_applications db"
  unfolding processReferralPayment_def
  by (auto split: if_splits option.splits)

lemma saveApplication_Inr:
  assumes "saveApplication now orig fm a db = Inr (a', db')"
  shows "a' = (preSaveStatusHistory now (app_status a \<noteq> app_status orig) False None a)\<lparr>updatedAt := now\<rparr>"
    and "db' = db\<lparr>db_applications :=
                    findByIdAndUpdate app_id (app_id orig) (\<lambda>_. a') (db_applications db)\<rparr>"
  using assms unfolding saveApplication_def preSaveApplicationSource_def
  by (auto simp: Let_def split: if_splits)

lemma preSave_history:
  "statusHistory (preSaveStatusHistory now m False None a) =
     (if m then statusHistory a @
        [\<lparr>h_status = app_status a, h_timestamp = now,
          h_note = ''Status changed to '' @ app_status_name (app_status a),
          updatedBy = None, updatedByModel = None\<rparr>]
      else statusHistory a)"
  unfolding preSaveStatusHistory_def by (simp add: Let_def)

lemma preSave_status: "app_status (preSaveStatusHistory now m n pj a) = app_status a"
  unfolding preSaveStatusHistory_def by (simp add: Let_def split: option.splits)

lemma preSave_id: "app_id (preSaveStatusHistory now m n pj a) = app_id a"
  unfolding preSaveStatusHistory_def by (simp add: Let_def split: option.splits)


lemma handleSpecialStatusChanges_app:
  "handleSpecialStatusChanges now who status a db = (a', db') \<Longrightarrow>
     \<exists>rp. a' = a\<lparr>referralPayment := rp\<rparr>"
  unfolding handleSpecialStatusChanges_def
  by (auto simp: Let_def split: if_splits option.splits prod.splits
           dest: processReferralPayment_app intro: exI [of _ "referralPayment a"])

lemma handleSpecialStatusChanges_store:
  "handleSpecialStatusChanges now who status a db = (a', db') \<Longrightarrow>
     db_jobs db' = db_jobs db \<and> db_applications db' = db_applications db"
  unfolding handleSpecialStatusChanges_def
  by (auto simp: Let_def split: if_splits option.splits prod.splits
           dest: processReferralPayment_store)

lemma updateStatusAndFeedback_fields:
  "updateStatusAndFeedback now who status body orig =
     orig\<lparr>app_status := status,
          statusHistory := statusHistory orig @
            [\<lparr>h_status = status, h_timestamp = now,
              h_note = orDefault (sb_note body)
                         (''Status changed to '' @ app_status_name status),
              updatedBy = Some (caller_id who),
              updatedByModel = Some CompanyModel\<rparr>],
          companyFeedback := companyFeedback (updateStatusAndFeedback now who status body orig)\<rparr>"
  unfolding updateStatusAndFeedback_def by (simp add: Let_def)

lemma updateApplicationStatus_Inr:
  assumes "updateApplicationStatus now who body db = (Inr a', db')"
  obtains status orig a3 db3 where
    "find (\<lambda>st. app_status_name st = sb_status body) validStatuses = Some status"
    "findById app_id (sb_id body) (db_applications db) = Some orig"
    "app_companyId orig = caller_id who"
    "handleSpecialStatusChanges now who status
       (updateStatusAndFeedback now who status body orig) db = (a3, db3)"
    "saveApplication now orig (feedbackProvided body) a3 db3 = Inr (a', db')"
  using assms unfolding updateApplicationStatus_def
  by (auto simp: Let_def split: option.splits if_splits prod.splits sum.splits)



lemma withdrawApplication_result:
  assumes "findById app_id (wb_id body) (db_applications db) = Some a"
  shows "withdrawApplication now who body db =
     (if applicantId a \<noteq> caller_id who then (Inl AccessDenied, db)
      else if app_status a \<notin> {Pending, Reviewing, Shortlisted}
      then (Inl CannotWithdrawApplication, db)
      else
        (let a' = a\<lparr>app_status := Withdrawn,
                     statusHistory := statusHistory a @
                       [\<lparr>h_status = Withdrawn, h_timestamp = now,
                         h_note = orDefault (wb_reason body) ''Application withdrawn by applicant'',
                         updatedBy = Some (caller_id who), updatedByModel = Some UserModel\<rparr>,
                        \<lparr>h_status = Withdrawn, h_timestamp = now,
                         h_note = ''Status changed to withdrawn'',
                         updatedBy = None, updatedByModel = None\<rparr>],
                     updatedAt := now\<rparr>
         in (Inr a', db\<lparr>db_applications :=
                          findByIdAndUpdate app_id (app_id a) (\<lambda>_. a') (db_applications db)\<rparr>)))"
  unfolding withdrawApplication_def saveApplication_def preSaveStatusHistory_def
    preSaveApplicationSource_def
  by (auto simp: assms Let_def)

lemma submitApplication_Inr:
  assumes "submitApplication upper now newId who body db = (Inr a, db')"
  obtains jb owner referrer isRef where
    "caller_type who = UserType"
    "findById job_id (ab_jobId body) (db_jobs db) = Some jb"
    "job_status jb = Active"
    "find (\<lambda>a. app_jobId a = ab_jobId body \<and> applicantId a = caller_id who)
       (db_applications db) = None"
    "handleReferralTracking upper who (ab_referralCode body) (db_users db) = (referrer, isRef)"
    "findById company_id (job_companyId jb) (db_companies db) = Some owner"
    "a = (newApplication now newId (ab_jobId body) (caller_id who) (company_id owner) referrer
           (if isRef then map_option upper (ab_referralCode body) else None)
           isRef (ab_coverLetter body))
          \<lparr>applicationSource := (if isRef then ''referral'' else ''direct'')\<rparr>"
    "db_applications db' = db_applications db @ [a]"
    "db_jobs db' = findByIdAndUpdate job_id (ab_jobId body) (incJobApplications isRef) (db_jobs db)"
    "db_users db' = (if isRef then (case referrer of None \<Rightarrow> db_users db
                       | Some r \<Rightarrow> findByIdAndUpdate user_id r incTotalReferrals (db_users db))
                     else db_users db)"
    "db_companies db' = findByIdAndUpdate company_id (company_id owner) incTotalApplications
                          (db_companies db)"
proof -
  from assms have ct: "caller_type who = UserType"
    unfolding submitApplication_def by (auto split: if_splits)
  from assms ct obtain jb where jb: "findById job_id (ab_jobId body) (db_jobs db) = Some jb"
    unfolding submitApplication_def by (auto split: option.splits)
  from assms ct jb have act: "job_status jb = Active"
    unfolding submitApplication_def by (auto split: if_splits)
  from assms ct jb act have ex: "find (\<lambda>a. app_jobId a = ab_jobId body \<and> applicantId a = caller_id who)
       (db_applications db) = None"
    unfolding submitApplication_def by (auto split: option.splits)
  obtain referrer isRef where
    hr: "handleReferralTracking upper who (ab_referralCode body) (db_users db) = (referrer, isRef)"
    by (cases "handleReferralTracking upper who (ab_referralCode body) (db_users db)")
  from assms ct jb act ex hr obtain owner where
    ow: "findById company_id (job_companyId jb) (db_companies db) = Some owner"
    unfolding submitApplication_def by (auto split: option.splits)
  define doc where "doc = newApplication now newId (ab_jobId body) (caller_id who) (company_id owner) referrer
           (if isRef then map_option upper (ab_referralCode body) else None)
           isRef (ab_coverLetter body)"
  have isr: "isReferral doc = isRef" by (simp add: doc_def newApplication_def)
  from assms ct jb act ex hr ow have
    r: "(case createApplication now doc db of
          Inl e \<Rightarrow> (Inl e, db)
        | Inr (a, db1) \<Rightarrow>
           (let db2 = db1\<lparr>db_jobs :=
                        findByIdAndUpdate job_id (ab_jobId body)
                          (incJobApplications isRef) (db_jobs db1)\<rparr>;
                db3 = (if isRef
                       then (case referrer of
                               None \<Rightarrow> db2
                             | Some r \<Rightarrow>
                                 db2\<lparr>db_users :=
                                       findByIdAndUpdate user_id r
                                         incTotalReferrals (db_users db2)\<rparr>)
                       else db2);
                db4 = db3\<lparr>db_companies :=
                        findByIdAndUpdate company_id (company_id owner)
                          incTotalApplications (db_companies db3)\<rparr>
            in (Inr a, db4))) = (Inr a, db')"
    unfolding submitApplication_def doc_def by simp
  then obtain a0 db1 where c: "createApplication now doc db = Inr (a0, db1)"
    by (cases "createApplication now doc db") auto
  from c have a0: "a0 = doc\<lparr>applicationSource := (if isRef then ''referral'' else ''direct'')\<rparr>"
    and db1: "db1 = db\<lparr>db_applications := db_applications db @ [a0]\<rparr>"
    unfolding createApplication_def preSaveStatusHistory_def preSaveApplicationSource_def
    by (auto simp: Let_def isr split: if_splits)
  from r c have aa: "a = a0" by (simp add: Let_def)
  from r c have d: "db' = (let db2 = db1\<lparr>db_jobs :=
                        findByIdAndUpdate job_id (ab_jobId body)
                          (incJobApplications isRef) (db_jobs db1)\<rparr>;
                db3 = (if isRef
                       then (case referrer of
                               None \<Rightarrow> db2
                             | Some r \<Rightarrow>
                                 db2\<lparr>db_users :=
                                       findByIdAndUpdate user_id r
                                         incTotalReferrals (db_users db2)\<rparr>)
                       else db2)
                in db3\<lparr>db_companies :=
                        findByIdAndUpdate company_id (company_id owner)
                          incTotalApplications (db_companies db3)\<rparr>)"
    by (simp add: Let_def)
  have 1: "db_applications db' = db_applications db @ [a]"
    by (simp add: d db1 aa Let_def split: option.splits)
  have 2: "db_jobs db' = findByIdAndUpdate job_id (ab_jobId body) (incJobApplications isRef) (db_jobs db)"
    by (simp add: d db1 aa Let_def split: option.splits)
  have 3: "db_users db' = (if isRef then (case referrer of None \<Rightarrow> db_users db
                       | Some r \<Rightarrow> findByIdAndUpdate user_id r incTotalReferrals (db_users db))
                     else db_users db)"
    by (simp add: d db1 aa Let_def split: option.splits)
  have 4: "db_companies db' = findByIdAndUpdate company_id (company_id owner) incTotalApplications
                          (db_companies db)"
    by (simp add: d db1 aa Let_def split: option.splits)
  from that [OF ct jb act ex hr ow a0 [folded aa, unfolded doc_def] 1 2 3 4] show ?thesis .
qed

section \<open>Lemmas on the earnings in the exact range\<close>

lemma earningsWithin_mono: "earningsWithin M u \<Longrightarrow> M \<le> N \<Longrightarrow> earningsWithin N u"
  unfolding earningsWithin_def by (auto intro: integerWithin_mono)

lemma exact_add:
  assumes "integerWithin M x" and "integerWithin F y" and "M + F < 2 ^ 53"
  shows "jsAdd x y = x + y" and "integerWithin (M + F) (x + y)"
proof -
  have i: "x \<in> \<int>" "y \<in> \<int>" using assms(1,2) by (auto dest: integerWithin_Ints)
  have b: "\<bar>x + y\<bar> \<le> M + F"
    using integerWithin_abs [OF assms(1)] integerWithin_abs [OF assms(2)] by linarith
  from i b assms(3) show "jsAdd x y = x + y" by (intro jsAdd_exact) auto
  from i b show "integerWithin (M + F) (x + y)" by (intro integerWithinI) auto
qed

lemma exact_sub:
  assumes "integerWithin M x" and "integerWithin F y" and "M + F < 2 ^ 53"
  shows "jsSub x y = x - y" and "integerWithin (M + F) (x - y)"
proof -
  have i: "x \<in> \<int>" "y \<in> \<int>" using assms(1,2) by (auto dest: integerWithin_Ints)
  have b: "\<bar>x - y\<bar> \<le> M + F"
    using integerWithin_abs [OF assms(1)] integerWithin_abs [OF assms(2)] by linarith
  from i b assms(3) show "jsSub x y = x - y" by (intro jsSub_exact) auto
  from i b show "integerWithin (M + F) (x - y)" by (intro integerWithinI) auto
qed

lemma integerWithin_bound_nonneg: "integerWithin F y \<Longrightarrow> 0 \<le> F"
  using integerWithin_abs [of F y] by linarith

lemma exact_incEarnings:
  assumes bal: "earningsBalanced u" and w: "earningsWithin M u"
      and fee: "integerWithin F fee" and lt: "M + F < 2 ^ 53"
  shows "earningsBalanced (incEarnings fee u) \<and> earningsWithin (M + F) (incEarnings fee u)"
proof -
  from w have t: "integerWithin M (totalEarnings (referralStats u))"
    and p: "integerWithin M (pendingEarnings (referralStats u))"
    and d: "integerWithin M (paidEarnings (referralStats u))"
    by (simp_all add: earningsWithin_def)
  have F0: "0 \<le> F" using fee by (rule integerWithin_bound_nonneg)
  note tt = exact_add [OF t fee lt] and pp = exact_add [OF p fee lt]
  have dd: "integerWithin (M + F) (paidEarnings (referralStats u))"
    using d F0 by (auto intro: integerWithin_mono)
  show ?thesis
    using bal tt pp dd by (simp add: earningsBalanced_def earningsWithin_def incEarnings_def)
qed

lemma exact_updateReferralStats:
  assumes bal: "earningsBalanced u" and w: "earningsWithin M u"
      and amt: "integerWithin F amt" and lt: "M + F < 2 ^ 53"
  shows "earningsBalanced (updateReferralStats kind amt u) \<and>
         earningsWithin (M + F) (updateReferralStats kind amt u)"
proof -
  from w have t: "integerWithin M (totalEarnings (referralStats u))"
    and p: "integerWithin M (pendingEarnings (referralStats u))"
    and d: "integerWithin M (paidEarnings (referralStats u))"
    by (simp_all add: earningsWithin_def)
  have F0: "0 \<le> F" using amt by (rule integerWithin_bound_nonneg)
  note tt = exact_add [OF t amt lt] and pp = exact_add [OF p amt lt]
    and dd = exact_add [OF d amt lt] and ps = exact_sub [OF p amt lt]
  have t': "integerWithin (M + F) (totalEarnings (referralStats u))"
    and p': "integerWithin (M + F) (pendingEarnings (referralStats u))"
    and d': "integerWithin (M + F) (paidEarnings (referralStats u))"
    using t p d F0 by (auto intro: integerWithin_mono)
  show ?thesis
    using bal tt pp dd ps t' p' d'
    by (simp add: earningsBalanced_def earningsWithin_def updateReferralStats_def Let_def)
qed

lemma earnings_incTotalReferrals:
  "earningsBalanced (incTotalReferrals u) = earningsBalanced u"
  "earningsWithin M (incTotalReferrals u) = earningsWithin M u"
  by (simp_all add: earningsBalanced_def earningsWithin_def incTotalReferrals_def)

lemma earnings_incSuccessfulReferrals:
  "earningsBalanced (incSuccessfulReferrals u) = earningsBalanced u"
  "earningsWithin M (incSuccessfulReferrals u) = earningsWithin M u"
  by (simp_all add: earningsBalanced_def earningsWithin_def incSuccessfulReferrals_def)

lemma exact_incTotalReferrals:
  "earningsBalanced u \<and> earningsWithin M u \<Longrightarrow>
     earningsBalanced (incTotalReferrals u) \<and> earningsWithin M (incTotalReferrals u)"
  by (simp only: earnings_incTotalReferrals)

lemma exact_incSuccessfulReferrals:
  "earningsBalanced u \<and> earningsWithin M u \<Longrightarrow>
     earningsBalanced (incSuccessfulReferrals u) \<and> earningsWithin M (incSuccessfulReferrals u)"
  by (simp only: earnings_incSuccessfulReferrals)

lemma feeWithin_incJobApplications: "feeWithin F jb \<Longrightarrow> feeWithin F (incJobApplications r jb)"
  by (simp add: feeWithin_def incJobApplications_def Let_def)

lemma exact_processReferralPayment:
  assumes us: "list_all (\<lambda>u. earningsBalanced u \<and> earningsWithin M u) (db_users db)"
      and js: "list_all (feeWithin F) (db_jobs db)"
      and lt: "M + F < 2 ^ 53" and F0: "0 \<le> F"
  shows "list_all (\<lambda>u. earningsBalanced u \<and> earningsWithin (M + F) u)
           (db_users (snd (processReferralPayment now a db)))"
proof -
  have weak: "list_all (\<lambda>u. earningsBalanced u \<and> earningsWithin (M + F) u) (db_users db)"
    using us F0 by (auto simp: list_all_iff intro: earningsWithin_mono)
  show ?thesis
  proof (cases "isReferral a")
    case False
    then show ?thesis using weak by (simp add: processReferralPayment_def)
  next
    case True
    show ?thesis
    proof (cases "referredBy a")
      case None
      then show ?thesis using weak True by (simp add: processReferralPayment_def)
    next
      case (Some r)
      show ?thesis
      proof (cases "findById job_id (app_jobId a) (db_jobs db)")
        case None
        then show ?thesis using weak True Some by (simp add: processReferralPayment_def)
      next
        case jb: (Some jb)
        from findById_mem [OF jb] js have fee: "integerWithin F (referralFee jb)"
          by (auto simp: list_all_iff feeWithin_def)
        have "list_all (\<lambda>u. earningsBalanced u \<and> earningsWithin (M + F) u)
                (updateFirst (\<lambda>x. user_id x = r) (incEarnings (referralFee jb)) (db_users db))"
          using us
        proof (rule list_all_updateFirst_weaken)
          fix u assume "earningsBalanced u \<and> earningsWithin M u"
          then show "earningsBalanced (incEarnings (referralFee jb) u) \<and>
                     earningsWithin (M + F) (incEarnings (referralFee jb) u)"
            using exact_incEarnings [OF _ _ fee lt] by blast
        next
          fix u assume "earningsBalanced u \<and> earningsWithin M u"
          then show "earningsBalanced u \<and> earningsWithin (M + F) u"
            using F0 by (auto intro: earningsWithin_mono)
        qed
        then show ?thesis
          using True Some jb by (simp add: processReferralPayment_def findByIdAndUpdate_def)
      qed
    qed
  qed
qed

lemma exact_handleSpecialStatusChanges:
  assumes us: "list_all (\<lambda>u. earningsBalanced u \<and> earningsWithin M u) (db_users db)"
      and js: "list_all (feeWithin F) (db_jobs db)"
      and lt: "M + F < 2 ^ 53" and F0: "0 \<le> F"
  shows "list_all (\<lambda>u. earningsBalanced u \<and> earningsWithin (M + F) u)
           (db_users (snd (handleSpecialStatusChanges now who status a db)))"
proof -
  have weak: "list_all (\<lambda>u. earningsBalanced u \<and> earningsWithin (M + F) u) (db_users db)"
    using us F0 by (auto simp: list_all_iff intro: earningsWithin_mono)
  obtain a' db1 where p: "processReferralPayment now a db = (a', db1)"
    by (cases "processReferralPayment now a db")
  from exact_processReferralPayment [OF us js lt F0, of now a] p
  have u1: "list_all (\<lambda>u. earningsBalanced u \<and> earningsWithin (M + F) u) (db_users db1)"
    by simp
  have u2: "\<And>r. list_all (\<lambda>u. earningsBalanced u \<and> earningsWithin (M + F) u)
              (findByIdAndUpdate user_id r incSuccessfulReferrals (db_users db1))"
    unfolding findByIdAndUpdate_def using u1
    by (rule list_all_updateFirst) (rule exact_incSuccessfulReferrals)
  show ?thesis
    unfolding handleSpecialStatusChanges_def using weak p u1 u2
    by (auto simp: Let_def split: option.splits)
qed

lemma updateApplicationStatus_store:
  "snd (updateApplicationStatus now who body db) = db \<or>
   (\<exists>status a2 a3 db3. handleSpecialStatusChanges now who status a2 db = (a3, db3) \<and>
      db_users (snd (updateApplicationStatus now who body db)) = db_users db3 \<and>
      db_jobs (snd (updateApplicationStatus now who body db)) = db_jobs db3)"
proof (cases "find (\<lambda>st. app_status_name st = sb_status body) validStatuses")
  case None
  then show ?thesis unfolding updateApplicationStatus_def by simp
next
  case st: (Some status)
  show ?thesis
  proof (cases "findById app_id (sb_id body) (db_applications db)")
    case None
    with st show ?thesis unfolding updateApplicationStatus_def by simp
  next
    case orig: (Some orig)
    show ?thesis
    proof (cases "app_companyId orig = caller_id who")
      case False
      with st orig show ?thesis unfolding updateApplicationStatus_def by simp
    next
      case True
      obtain a3 db3 where
        h: "handleSpecialStatusChanges now who status
              (updateStatusAndFeedback now who status body orig) db = (a3, db3)"
        by (cases "handleSpecialStatusChanges now who status
                     (updateStatusAndFeedback now who status body orig) db")
      have "db_users (snd (updateApplicationStatus now who body db)) = db_users db3 \<and>
            db_jobs (snd (updateApplicationStatus now who body db)) = db_jobs db3"
      proof (cases "saveApplication now orig (feedbackProvided body) a3 db3")
        case (Inl e)
        with st orig True h show ?thesis
          unfolding updateApplicationStatus_def by (simp add: Let_def)
      next
        case (Inr p)
        obtain a4 db4 where p: "p = (a4, db4)" by (cases p)
        from Inr p have "db_users db4 = db_users db3" "db_jobs db4 = db_jobs db3"
          by (auto simp: saveApplication_def Let_def split: if_splits)
        with Inr p st orig True h show ?thesis
          unfolding updateApplicationStatus_def by (simp add: Let_def)
      qed
      with h show ?thesis by blast
    qed
  qed
qed

lemma withdrawApplication_users:
  "db_users (snd (withdrawApplication now who body db)) = db_users db"
  unfolding withdrawApplication_def saveApplication_def
  by (auto simp: Let_def split: option.splits)

lemma withdrawApplication_jobs:
  "db_jobs (snd (withdrawApplication now who body db)) = db_jobs db"
  unfolding withdrawApplication_def saveApplication_def
  by (auto simp: Let_def split: option.splits)

lemma createJob_users: "db_users (snd (createJob now newId who body db)) = db_users db"
  unfolding createJob_def by (auto simp: Let_def split: option.splits)

lemma updateJob_users: "db_users (snd (updateJob now who body db)) = db_users db"
  unfolding updateJob_def by (auto simp: Let_def split: option.splits)

lemma updateJobStatus_users: "db_users (snd (updateJobStatus now who body db)) = db_users db"
  unfolding updateJobStatus_def by (auto simp: Let_def split: option.splits)

lemma fold_companies_users:
  "db_users (fold (\<lambda>jb d. d\<lparr>db_companies := g jb d\<rparr>) js db) = db_users db"
  by (induction js arbitrary: db) simp_all

lemma fold_companies_jobs:
  "db_jobs (fold (\<lambda>jb d. d\<lparr>db_companies := g jb d\<rparr>) js db) = db_jobs db"
  by (induction js arbitrary: db) simp_all

lemma cleanupExpiredJobs_users: "db_users (cleanupExpiredJobs now db) = db_users db"
  unfolding cleanupExpiredJobs_def by (simp add: Let_def fold_companies_users)

lemma exact_users_submitApplication:
  assumes "list_all (\<lambda>u. earningsBalanced u \<and> earningsWithin M u) (db_users db)"
  shows "list_all (\<lambda>u. earningsBalanced u \<and> earningsWithin M u)
           (db_users (snd (submitApplication upper now newId who body db)))"
proof -
  have u: "\<And>r. list_all (\<lambda>u. earningsBalanced u \<and> earningsWithin M u)
             (findByIdAndUpdate user_id r incTotalReferrals (db_users db))"
    unfolding findByIdAndUpdate_def using assms
    by (rule list_all_updateFirst) (rule exact_incTotalReferrals)
  show ?thesis
    unfolding submitApplication_def createApplication_def using assms u
    by (auto simp: Let_def split: option.splits prod.splits sum.splits)
qed

lemma fees_submitApplication:
  assumes "list_all (feeWithin F) (db_jobs db)"
  shows "list_all (feeWithin F) (db_jobs (snd (submitApplication upper now newId who body db)))"
proof -
  have j: "\<And>i r. list_all (feeWithin F)
             (findByIdAndUpdate job_id i (incJobApplications r) (db_jobs db))"
    unfolding findByIdAndUpdate_def using assms
    by (rule list_all_updateFirst) (rule feeWithin_incJobApplications)
  show ?thesis
    unfolding submitApplication_def createApplication_def using assms j
    by (auto simp: Let_def split: option.splits prod.splits sum.splits)
qed

lemma fees_createJob:
  assumes "list_all (feeWithin F) (db_jobs db)"
      and "integerWithin F (numberOr (jb_referralFee body) 1000)"
  shows "list_all (feeWithin F) (db_jobs (snd (createJob now newId who body db)))"
  unfolding createJob_def using assms
  by (auto simp: Let_def feeWithin_def split: option.splits)

lemma fees_updateJob:
  assumes js: "list_all (feeWithin F) (db_jobs db)"
      and amt: "case ju_referralFee body of None \<Rightarrow> True | Some f \<Rightarrow> integerWithin F f"
  shows "list_all (feeWithin F) (db_jobs (snd (updateJob now who body db)))"
proof (cases "findById job_id (ju_id body) (db_jobs db)")
  case None
  then show ?thesis unfolding updateJob_def using js by simp
next
  case (Some jb)
  from findById_mem [OF Some] js have old: "feeWithin F jb" by (auto simp: list_all_iff)
  have new: "\<And>t s d. feeWithin F
          (jb\<lparr>job_title := t,
              referralFee := (case ju_referralFee body of None \<Rightarrow> referralFee jb | Some f \<Rightarrow> f),
              job_status := s, applicationDeadline := d, updatedDate := Some now\<rparr>)"
    using old amt by (auto simp: feeWithin_def split: option.splits)
  have upd: "\<And>t s d. list_all (feeWithin F)
          (updateFirst (\<lambda>x. job_id x = ju_id body)
             (\<lambda>_. jb\<lparr>job_title := t,
                referralFee := (case ju_referralFee body of None \<Rightarrow> referralFee jb | Some f \<Rightarrow> f),
                job_status := s, applicationDeadline := d, updatedDate := Some now\<rparr>)
             (db_jobs db))"
    using js new by (rule list_all_updateFirst_const)
  show ?thesis
  proof (cases "snd (updateJob now who body db) = db")
    case True
    then show ?thesis using js by simp
  next
    case False
    then obtain s where
      "db_jobs (snd (updateJob now who body db)) =
         updateFirst (\<lambda>x. job_id x = ju_id body)
           (\<lambda>_. jb\<lparr>job_title := (case ju_title body of None \<Rightarrow> job_title jb | Some t \<Rightarrow> t),
              referralFee := (case ju_referralFee body of None \<Rightarrow> referralFee jb | Some f \<Rightarrow> f),
              job_status := s,
              applicationDeadline :=
                (case ju_applicationDeadline body of
                   None \<Rightarrow> applicationDeadline jb | Some d \<Rightarrow> Some d),
              updatedDate := Some now\<rparr>)
           (db_jobs db)"
      unfolding updateJob_def findByIdAndUpdate_def using Some
      by (auto simp: Let_def split: option.splits if_splits)
    then show ?thesis using upd by simp
  qed
qed

lemma fees_updateJobStatus:
  assumes js: "list_all (feeWithin F) (db_jobs db)"
  shows "list_all (feeWithin F) (db_jobs (snd (updateJobStatus now who body db)))"
proof (cases "findById job_id (js_id body) (db_jobs db)")
  case None
  then show ?thesis unfolding updateJobStatus_def using js by (simp split: option.splits)
next
  case (Some jb)
  from findById_mem [OF Some] js have old: "feeWithin F jb" by (auto simp: list_all_iff)
  show ?thesis
    unfolding updateJobStatus_def findByIdAndUpdate_def using js Some old
    by (auto simp: Let_def feeWithin_def split: option.splits
             intro!: list_all_updateFirst_const)
qed

lemma fees_cleanupExpiredJobs:
  assumes js: "list_all (feeWithin F) (db_jobs db)"
  shows "list_all (feeWithin F) (db_jobs (cleanupExpiredJobs now db))"
  unfolding cleanupExpiredJobs_def using js
  by (auto simp: Let_def fold_companies_jobs list_all_iff feeWithin_def)

lemma exact_applyOperation:
  assumes us: "list_all (\<lambda>u. earningsBalanced u \<and> earningsWithin M u) (db_users db)"
      and js: "list_all (feeWithin F) (db_jobs db)"
      and am: "amountsWithin F op"
      and lt: "M + F < 2 ^ 53" and F0: "0 \<le> F"
  shows "list_all (\<lambda>u. earningsBalanced u \<and> earningsWithin (M + F) u)
           (db_users (applyOperation op db)) \<and>
         list_all (feeWithin F) (db_jobs (applyOperation op db))"
proof -
  have weak: "\<And>us. list_all (\<lambda>u. earningsBalanced u \<and> earningsWithin M u) us \<Longrightarrow>
                 list_all (\<lambda>u. earningsBalanced u \<and> earningsWithin (M + F) u) us"
    using F0 by (auto simp: list_all_iff intro: earningsWithin_mono)
  show ?thesis
  proof (cases op)
    case (SubmitApplication upper now newId who body)
    then show ?thesis
      using weak [OF exact_users_submitApplication [OF us]] fees_submitApplication [OF js]
      by simp
  next
    case (UpdateApplicationStatus now who body)
    from updateApplicationStatus_store [of now who body db]
    show ?thesis
    proof
      assume "snd (updateApplicationStatus now who body db) = db"
      then show ?thesis using UpdateApplicationStatus weak [OF us] js by simp
    next
      assume "\<exists>status a2 a3 db3. handleSpecialStatusChanges now who status a2 db = (a3, db3) \<and>
        db_users (snd (updateApplicationStatus now who body db)) = db_users db3 \<and>
        db_jobs (snd (updateApplicationStatus now who body db)) = db_jobs db3"
      then obtain status a2 a3 db3 where
        h: "handleSpecialStatusChanges now who status a2 db = (a3, db3)" and
        u: "db_users (snd (updateApplicationStatus now who body db)) = db_users db3" and
        j: "db_jobs (snd (updateApplicationStatus now who body db)) = db_jobs db3"
        by blast
      from exact_handleSpecialStatusChanges [OF us js lt F0, of now who status a2] h
      have "list_all (\<lambda>u. earningsBalanced u \<and> earningsWithin (M + F) u) (db_users db3)"
        by simp
      moreover from handleSpecialStatusChanges_store [OF h] have "db_jobs db3 = db_jobs db"
        by simp
      ultimately show ?thesis using UpdateApplicationStatus u j js by simp
    qed
  next
    case (WithdrawApplication now who body)
    then show ?thesis
      using weak [OF us] js by (simp add: withdrawApplication_users withdrawApplication_jobs)
  next
    case (UpdateReferralStats uid kind amt)
    with am have amt: "integerWithin F amt" by simp
    have "list_all (\<lambda>u. earningsBalanced u \<and> earningsWithin (M + F) u)
            (updateFirst (\<lambda>x. user_id x = uid) (updateReferralStats kind amt) (db_users db))"
      using us
    proof (rule list_all_updateFirst_weaken)
      fix u assume "earningsBalanced u \<and> earningsWithin M u"
      then show "earningsBalanced (updateReferralStats kind amt u) \<and>
                 earningsWithin (M + F) (updateReferralStats kind amt u)"
        using exact_updateReferralStats [OF _ _ amt lt] by blast
    next
      fix u assume "earningsBalanced u \<and> earningsWithin M u"
      then show "earningsBalanced u \<and> earningsWithin (M + F) u"
        using F0 by (auto intro: earningsWithin_mono)
    qed
    then show ?thesis
      using UpdateReferralStats js
      by (simp add: userUpdateReferralStats_def findByIdAndUpdate_def)
  next
    case (CreateJob now newId who body)
    with am have "integerWithin F (numberOr (jb_referralFee body) 1000)" by simp
    from fees_createJob [OF js this] show ?thesis
      using CreateJob weak [OF us] by (simp add: createJob_users)
  next
    case (UpdateJob now who body)
    with am have "case ju_referralFee body of None \<Rightarrow> True | Some f \<Rightarrow> integerWithin F f"
      by simp
    from fees_updateJob [OF js this] show ?thesis
      using UpdateJob weak [OF us] by (simp add: updateJob_users)
  next
    case (UpdateJobStatus now who body)
    then show ?thesis
      using weak [OF us] fees_updateJobStatus [OF js] by (simp add: updateJobStatus_users)
  next
    case (CleanupExpiredJobs now)
    then show ?thesis
      using weak [OF us] fees_cleanupExpiredJobs [OF js] by (simp add: cleanupExpiredJobs_users)
  qed
qed

lemma exact_runOperations:
  assumes "list_all (\<lambda>u. earningsBalanced u \<and> earningsWithin M u) (db_users db)"
      and "list_all (feeWithin F) (db_jobs db)"
      and "list_all (amountsWithin F) ops"
      and "0 \<le> F"
      and "M + of_nat (length ops) * F < 2 ^ 53"
  shows "list_all (\<lambda>u. earningsBalanced u \<and> earningsWithin (M + of_nat (length ops) * F) u)
           (db_users (runOperations ops db))"
  using assms
proof (induction ops arbitrary: M db)
  case Nil
  then show ?case by (simp add: runOperations_def)
next
  case (Cons op ops)
  have lt1: "M + F < 2 ^ 53"
  proof -
    have "0 \<le> of_nat (length ops) * F" using Cons.prems(4) by simp
    with Cons.prems(5) show ?thesis by (simp add: algebra_simps)
  qed
  from Cons.prems(3) have am: "amountsWithin F op" and ams: "list_all (amountsWithin F) ops"
    by simp_all
  from exact_applyOperation [OF Cons.prems(1,2) am lt1 Cons.prems(4)]
  have us': "list_all (\<lambda>u. earningsBalanced u \<and> earningsWithin (M + F) u)
               (db_users (applyOperation op db))"
    and js': "list_all (feeWithin F) (db_jobs (applyOperation op db))"
    by simp_all
  have lt': "M + F + of_nat (length ops) * F < 2 ^ 53"
    using Cons.prems(5) by (simp add: algebra_simps)
  from Cons.IH [OF us' js' ams Cons.prems(4) lt']
  have "list_all (\<lambda>u. earningsBalanced u \<and> earningsWithin (M + F + of_nat (length ops) * F) u)
          (db_users (runOperations ops (applyOperation op db)))" .
  moreover have "M + F + of_nat (length ops) * F = M + of_nat (length (op # ops)) * F"
    by (simp add: algebra_simps)
  ultimately show ?case by (simp add: runOperations_def)
qed

section \<open>The example store, evaluated\<close>

lemmas example_defs =
  store0_def store1_def store2_def storeSelf_def storeWithdrawn_def storeNew_def storePaused_def
  callerA_def callerB_def callerC_def userA_def userB_def companyC_def companyNew_def jobJ_def
  referredBody_def hireBody_def reopenBody_def withdrawBody_def jobBodyDefault_def pauseBody_def
  pauseStatusBody_def
  applicationB_def applicationHired_def applicationReopened_def applicationWithdrawn_def
  applicationSelf_def newApplication_def zeroReferralStats_def

lemmas controller_defs =
  findById_def findByIdAndUpdate_def Let_def
  incTotalReferrals_def incTotalApplications_def incJobApplications_def incEarnings_def
  incSuccessfulReferrals_def incTotalHires_def incActiveJobs_def
  preSaveStatusHistory_def preSaveApplicationSource_def saveApplication_def
  updateApplicationStatus_def updateStatusAndFeedback_def feedbackProvided_def
  handleSpecialStatusChanges_def processReferralPayment_def validStatuses_def
  orDefault_def truthyNumber_def jsAdd_exact jsSub_exact

lemma asciiUpperCase_code: "asciiUpperCase ''ref-john-123456'' = ''REF-JOHN-123456''"
  by (simp add: asciiUpperCase_def asciiUpperChar_def)

lemma show_nat_40: "show_nat 40 = ''40''"
  by (simp add: show_nat.simps [of 40] show_nat.simps [of 4] digit_char_def)

lemma scenario_submit:
  "submitApplication asciiUpperCase 5 1000 callerB referredBody store0 = (Inr applicationB, store1)"
  by (simp add: submitApplication_def example_defs controller_defs handleReferralTracking_def
        asciiUpperCase_code createApplication_def validCoverLetter_def)

lemma scenario_hire:
  "updateApplicationStatus 40 callerC hireBody store1 = (Inr applicationHired, store2)"
  by (simp add: example_defs controller_defs show_nat_40)

lemma scenario_self:
  "submitApplication asciiUpperCase 5 1000 callerA referredBody store0
     = (Inr applicationSelf, storeSelf)"
  by (simp add: submitApplication_def example_defs controller_defs handleReferralTracking_def
        asciiUpperCase_code createApplication_def validCoverLetter_def)

lemma scenario_withdraw:
  "withdrawApplication 20 callerB withdrawBody store1 = (Inr applicationWithdrawn, storeWithdrawn)"
  by (simp add: withdrawApplication_def example_defs controller_defs)

lemma scenario_pause:
  "snd (updateJobStatus 30 callerC pauseStatusBody store1) = storePaused"
  by (simp add: updateJobStatus_def example_defs controller_defs allJobStatuses_def)

text \<open>
  The roundings of the example with fractional fees: \<open>0.1\<close> and \<open>0.3\<close> as binary64
  values, their sum \<open>0.4\<close>, and the differences \<open>0.4 - 0.1 = 0.30000000000000004\<close> and
  \<open>0.30000000000000004 - 0.3 = 2^-54\<close>.
\<close>

lemmas rounding_simps = roundHalfEven_def power_int_minus Let_def floor_numeral_div

lemma round64_tenth: "round64 (1 / 10) = 3602879701896397 / 36028797018963968"
  by (subst round64_normal [of "- 4"]) (simp_all add: rounding_simps)

lemma round64_three_tenths: "round64 (3 / 10) = 5404319552844595 / 18014398509481984"
  by (subst round64_normal [of "- 2"]) (simp_all add: rounding_simps)

lemma jsAdd_zero_tenth:
  "jsAdd 0 (3602879701896397 / 36028797018963968) = 3602879701896397 / 36028797018963968"
  unfolding jsAdd_def
  by (subst round64_normal [of "- 4"]) (simp_all add: rounding_simps)

lemma jsAdd_tenth_three_tenths:
  "jsAdd (3602879701896397 / 36028797018963968) (5404319552844595 / 18014398509481984)
     = 3602879701896397 / 9007199254740992"
  unfolding jsAdd_def
  by (subst round64_normal [of "- 2"]) (simp_all add: rounding_simps)

lemma jsSub_four_tenths_tenth:
  "jsSub (3602879701896397 / 9007199254740992) (3602879701896397 / 36028797018963968)
     = 1351079888211149 / 4503599627370496"
  unfolding jsSub_def
  by (subst round64_normal [of "- 2"]) (simp_all add: rounding_simps)

lemma jsSub_rest_three_tenths:
  "jsSub (1351079888211149 / 4503599627370496) (5404319552844595 / 18014398509481984)
     = 1 / 18014398509481984"
  unfolding jsSub_def
  by (subst round64_normal [of "- 54"]) (simp_all add: rounding_simps)

lemma jsAdd_rest_four_tenths:
  "jsAdd (1 / 18014398509481984) (3602879701896397 / 9007199254740992)
     = 7205759403792795 / 18014398509481984"
  unfolding jsAdd_def
  by (subst round64_normal [of "- 2"]) (simp_all add: rounding_simps)

lemmas fraction_simps =
  round64_tenth round64_three_tenths jsAdd_zero_tenth jsAdd_tenth_three_tenths
  jsSub_four_tenths_tenth jsSub_rest_three_tenths jsAdd_rest_four_tenths

lemmas fraction_defs =
  storeFractions_def jobTenth_def jobThreeTenths_def applicationTenth_def
  applicationThreeTenths_def hireTenth_def hireThreeTenths_def fractionOperations_def

lemma fractions_run:
  "map (\<lambda>u. (totalEarnings (referralStats u), pendingEarnings (referralStats u),
             paidEarnings (referralStats u)))
     (db_users (runOperations fractionOperations storeFractions))
   = [(3602879701896397 / 2 ^ 53, 1 / 2 ^ 54, 3602879701896397 / 2 ^ 53), (0, 0, 0)]"
  by (simp add: runOperations_def fraction_defs example_defs controller_defs fraction_simps
        userUpdateReferralStats_def updateReferralStats_def)

section \<open>The claims\<close>

subsection \<open>C1: terminal statuses\<close>

text \<open>
  Claim C1: for an application whose status is hired, rejected or withdrawn, every
  further call of \<open>updateApplicationStatus\<close> with a valid status fails, the status is
  unchanged and the status history gains no entry.

  The model of the application has the method \<open>canBeUpdatedByCompany\<close>, which is false
  for these three statuses, and \<open>withdrawApplication\<close> tests the status before it
  writes; \<open>updateApplicationStatus\<close> tests neither. The theorem runs the handler on
  the hired application of the example: the owning company sets it back to pending, the
  call succeeds, the stored status is pending and the history has two entries more.
\<close>

theorem hired_application_reopened:
  "app_status applicationHired = Hired \<and>
   canBeUpdatedByCompany applicationHired = False \<and>
   updateApplicationStatus 50 callerC reopenBody store2 =
     (Inr applicationReopened, store2\<lparr>db_applications := [applicationReopened]\<rparr>) \<and>
   app_status applicationReopened = Pending \<and>
   length (statusHistory applicationReopened) = length (statusHistory applicationHired) + 2"
  by (simp add: example_defs controller_defs canBeUpdatedByCompany_def)

subsection \<open>C2: the hire payment is not idempotent\<close>

text \<open>
  Claim C2: running the hire-payment side effect \<open>processReferralPayment\<close> twice for
  the same referred application increments the referrer's pending and total earnings by
  the referral fee once in total.

  The helper has no test of the payment already recorded on the application. The
  theorem runs it twice on the referred application of the example (referral fee 1000):
  the referrer's pending and total earnings are 0 before, 1000 after the first run and
  2000 after the second. The last conjunct reaches the same state through the handler:
  a second request that sets the hired application to hired.
\<close>

theorem referral_payment_paid_twice:
  "referralFee jobJ = 1000 \<and>
   map (\<lambda>u. (pendingEarnings (referralStats u), totalEarnings (referralStats u)))
     (db_users store1) = [(0, 0), (0, 0)] \<and>
   map (\<lambda>u. (pendingEarnings (referralStats u), totalEarnings (referralStats u)))
     (db_users (snd (processReferralPayment 40 applicationB store1))) = [(1000, 1000), (0, 0)] \<and>
   map (\<lambda>u. (pendingEarnings (referralStats u), totalEarnings (referralStats u)))
     (db_users (snd (processReferralPayment 41
                       (fst (processReferralPayment 40 applicationB store1))
                       (snd (processReferralPayment 40 applicationB store1)))))
     = [(2000, 2000), (0, 0)] \<and>
   map (\<lambda>u. (pendingEarnings (referralStats u), totalEarnings (referralStats u)))
     (db_users (snd (updateApplicationStatus 50 callerC hireBody store2)))
     = [(2000, 2000), (0, 0)]"
  by (simp add: example_defs controller_defs)

subsection \<open>C3: hiring a referred applicant\<close>



subsection \<open>C4: the counter of active jobs\<close>

text \<open>
  Claim C4: after any sequence of job creations, status changes, generic updates and
  deadline sweeps, \<open>stats.activeJobs\<close> of a company is the number of its jobs whose
  status is active.

  \<open>createJob\<close> stores the job with \<open>status || 'active'\<close> and increments the counter
  under \<open>status === 'active'\<close> (with the comment that the counter is incremented only
  if the status is active): a body without a status gives an active job that is not
  counted. \<open>updateJob\<close> writes a status of the body into the job and, unlike
  \<open>updateJobStatus\<close>, leaves the counter alone. The theorem runs both: a company with
  no job and counter 0 creates a job without a status, and has one active job against a
  counter of 0; the company of the example pauses its only job through the generic
  update, and has no active job against a counter of 1.
\<close>

theorem active_jobs_counter_drifts:
  "activeJobCount storeNew 10 = 0 \<and>
   map (\<lambda>c. activeJobs (cstats c)) (db_companies storeNew) = [0] \<and>
   map job_status (db_jobs (runOperations [CreateJob 1 100 callerC jobBodyDefault] storeNew))
     = [Active] \<and>
   activeJobCount (runOperations [CreateJob 1 100 callerC jobBodyDefault] storeNew) 10 = 1 \<and>
   map (\<lambda>c. activeJobs (cstats c))
     (db_companies (runOperations [CreateJob 1 100 callerC jobBodyDefault] storeNew)) = [0] \<and>
   activeJobCount store0 10 = 1 \<and>
   map (\<lambda>c. activeJobs (cstats c)) (db_companies store0) = [1] \<and>
   activeJobCount (runOperations [UpdateJob 2 callerC pauseBody] store0) 10 = 0 \<and>
   map (\<lambda>c. activeJobs (cstats c))
     (db_companies (runOperations [UpdateJob 2 callerC pauseBody] store0)) = [1]"
  by (simp add: example_defs runOperations_def createJob_def updateJob_def activeJobCount_def
        allJobStatuses_def orDefault_def numberOr_def incJobsPosted_def findById_def
        findByIdAndUpdate_def Let_def validDeadline_def jsAdd_exact)

subsection \<open>C5: the earnings balance\<close>

text \<open>
  Claim C5: for every user, \<open>referralStats.totalEarnings\<close> equals
  \<open>pendingEarnings\<close> plus \<open>paidEarnings\<close> after any sequence of submissions, hires
  and payouts.

  The counters are JavaScript numbers and a referral fee is any number that is not
  negative, so the sums round. In the example with the fees \<open>0.1\<close> and \<open>0.3\<close> the
  referrer's earnings balance at the start; after both applicants are hired and both
  fees are paid out the total is \<open>0.4\<close>, the pending earnings are \<open>2^-54\<close> and
  the paid earnings are \<open>0.4\<close>: the total is neither the exact sum of the two nor
  their sum as JavaScript numbers, which is \<open>0.4000000000000001\<close>.
\<close>

theorem earnings_unbalanced_by_rounding:
  "list_all earningsBalanced (db_users storeFractions) \<and>
   map (\<lambda>u. (totalEarnings (referralStats u), pendingEarnings (referralStats u),
             paidEarnings (referralStats u)))
     (db_users (runOperations fractionOperations storeFractions))
     = [(3602879701896397 / 2 ^ 53, 1 / 2 ^ 54, 3602879701896397 / 2 ^ 53), (0, 0, 0)] \<and>
   \<not> list_all earningsBalanced (db_users (runOperations fractionOperations storeFractions)) \<and>
   jsAdd (1 / 2 ^ 54) (3602879701896397 / 2 ^ 53) = 7205759403792795 / 2 ^ 54 \<and>
   jsAdd (1 / 2 ^ 54) (3602879701896397 / 2 ^ 53) \<noteq> 3602879701896397 / 2 ^ 53"
proof -
  have start: "list_all earningsBalanced (db_users storeFractions)"
    by (simp add: fraction_defs example_defs earningsBalanced_def)
  have triple: "\<And>us. list_all earningsBalanced us =
          list_all (\<lambda>(t, p, d). t = p + d)
            (map (\<lambda>u. (totalEarnings (referralStats u), pendingEarnings (referralStats u),
                       paidEarnings (referralStats u))) us)"
    by (simp add: list_all_iff earningsBalanced_def)
  have unbalanced:
    "\<not> list_all earningsBalanced (db_users (runOperations fractionOperations storeFractions))"
    unfolding triple fractions_run by simp
  have sum: "jsAdd (1 / 2 ^ 54) (3602879701896397 / 2 ^ 53) = 7205759403792795 / 2 ^ 54"
    using jsAdd_rest_four_tenths by simp
  from start fractions_run unbalanced sum show ?thesis by simp
qed

text \<open>
  Claim C5 as amended: the earnings of every user balance after any list of the
  operations, when they balance at the start and the arithmetic stays exact: the three
  earnings of every user are integers of magnitude at most \<open>M\<close>, every referral fee of
  a stored job or a job body and every amount of \<open>updateReferralStats\<close> is an integer of
  magnitude at most \<open>F\<close>, and \<open>M\<close> plus the number of operations times \<open>F\<close> is
  below \<open>2^53\<close>.
\<close>

theorem earnings_balanced_in_exact_range:
  assumes bal: "list_all earningsBalanced (db_users db)"
      and within: "list_all (earningsWithin M) (db_users db)"
      and fees: "list_all (feeWithin F) (db_jobs db)"
      and amounts: "list_all (amountsWithin F) ops"
      and F0: "0 \<le> F"
      and range: "M + of_nat (length ops) * F < 2 ^ 53"
  shows "list_all earningsBalanced (db_users (runOperations ops db))"
proof -
  from bal within
  have "list_all (\<lambda>u. earningsBalanced u \<and> earningsWithin M u) (db_users db)"
    by (simp add: list_all_iff)
  from exact_runOperations [OF this fees amounts F0 range]
  show ?thesis by (simp add: list_all_iff)
qed

theorem earnings_balanced_in_exact_range_witness:
  "list_all earningsBalanced (db_users store0) \<and>
   list_all (earningsWithin 0) (db_users store0) \<and>
   list_all (feeWithin 1000) (db_jobs store0) \<and>
   list_all (amountsWithin 1000) scenarioOperations \<and>
   (0::number) \<le> 1000 \<and>
   (0::number) + of_nat (length scenarioOperations) * 1000 < 2 ^ 53 \<and>
   list_all earningsBalanced (db_users (runOperations scenarioOperations store0)) \<and>
   map (\<lambda>u. (totalEarnings (referralStats u), pendingEarnings (referralStats u),
             paidEarnings (referralStats u)))
     (db_users (runOperations scenarioOperations store0))
     = [(1000, 0, 1000), (0, 0, 0)]"
proof -
  have h1: "list_all earningsBalanced (db_users store0)"
    by (simp add: example_defs earningsBalanced_def)
  have h2: "list_all (earningsWithin 0) (db_users store0)"
    by (simp add: example_defs earningsWithin_def integerWithin_def)
  have h3: "list_all (feeWithin 1000) (db_jobs store0)"
    by (simp add: example_defs feeWithin_def integerWithin_def)
  have h4: "list_all (amountsWithin 1000) scenarioOperations"
    by (simp add: scenarioOperations_def integerWithin_def)
  have h5: "(0::number) \<le> 1000" by simp
  have h6: "(0::number) + of_nat (length scenarioOperations) * 1000 < 2 ^ 53"
    by (simp add: scenarioOperations_def)
  have v: "map (\<lambda>u. (totalEarnings (referralStats u), pendingEarnings (referralStats u),
             paidEarnings (referralStats u)))
     (db_users (runOperations scenarioOperations store0))
     = [(1000, 0, 1000), (0, 0, 0)]"
    by (simp add: runOperations_def scenarioOperations_def scenario_submit scenario_hire
          userUpdateReferralStats_def updateReferralStats_def store2_def userA_def userB_def
          zeroReferralStats_def findByIdAndUpdate_def incSuccessfulReferrals_def
          incEarnings_def incTotalReferrals_def Let_def jsAdd_exact jsSub_exact)
  from earnings_balanced_in_exact_range [OF h1 h2 h3 h4 h5 h6] h1 h2 h3 h4 h5 h6 v
  show ?thesis by simp
qed

subsection \<open>C6: a second application for the same job\<close>

text \<open>
  Claim C6: for every job and applicant for which an application exists, a second
  \<open>submitApplication\<close> for the same pair fails with the error "Already applied" (the
  specification's DuplicateApplication) and leaves the counters as they were.

  The handler tests the status of the job before it looks for an application. In the
  example B applies for J and the company then pauses J: the application of B for J
  exists, and a second submission of B for J is answered with "Job not accepting
  applications". The store is unchanged.
\<close>

theorem duplicate_after_pause_counterexample:
  "runOperations [SubmitApplication asciiUpperCase 5 1000 callerB referredBody,
                  UpdateJobStatus 30 callerC pauseStatusBody] store0 = storePaused \<and>
   find (\<lambda>a. app_jobId a = ab_jobId referredBody \<and> applicantId a = caller_id callerB)
     (db_applications storePaused) = Some applicationB \<and>
   submitApplication asciiUpperCase 31 1001 callerB referredBody storePaused
     = (Inl JobNotAcceptingApplications, storePaused) \<and>
   submitApplication asciiUpperCase 31 1001 callerB referredBody storePaused
     \<noteq> (Inl AlreadyApplied, storePaused)"
  by (simp add: runOperations_def scenario_submit scenario_pause)
     (simp add: submitApplication_def example_defs controller_defs)

text \<open>
  Claim C6 as amended: for every job and applicant for which an application exists, a
  further \<open>submitApplication\<close> of that applicant, a user, for that job fails and leaves
  the whole store unchanged, and with it the counters of the job, the company and the
  referrer. The error is "Already applied" when the job is stored with the status
  active, "Job not accepting applications" when its status is another, and "Job not
  found" when the job is not stored.
\<close>

theorem existing_application_blocks_submission:
  assumes existing: "find (\<lambda>a. app_jobId a = ab_jobId body \<and> applicantId a = caller_id who)
                       (db_applications db) = Some e"
      and user: "caller_type who = UserType"
  shows "submitApplication upper now newId who body db =
           (Inl (case findById job_id (ab_jobId body) (db_jobs db) of
                   None \<Rightarrow> JobNotFound
                 | Some jb \<Rightarrow>
                     if job_status jb = Active then AlreadyApplied
                     else JobNotAcceptingApplications),
            db)"
  unfolding submitApplication_def using existing user
  by (simp split: option.splits)

theorem existing_application_blocks_submission_witness:
  "submitApplication asciiUpperCase 5 1000 callerB referredBody store0
     = (Inr applicationB, store1) \<and>
   find (\<lambda>a. app_jobId a = ab_jobId referredBody \<and> applicantId a = caller_id callerB)
     (db_applications store1) = Some applicationB \<and>
   caller_type callerB = UserType \<and>
   submitApplication asciiUpperCase 6 1001 callerB referredBody store1
     = (Inl AlreadyApplied, store1)"
proof -
  have h1: "find (\<lambda>a. app_jobId a = ab_jobId referredBody \<and> applicantId a = caller_id callerB)
              (db_applications store1) = Some applicationB"
    by (simp add: example_defs)
  have h2: "caller_type callerB = UserType" by (simp add: callerB_def)
  have j: "findById job_id (ab_jobId referredBody) (db_jobs store1)
             = Some (incJobApplications True jobJ)"
    by (simp add: example_defs findById_def incJobApplications_def Let_def)
  have a: "job_status (incJobApplications True jobJ) = Active"
    by (simp add: jobJ_def incJobApplications_def Let_def)
  from existing_application_blocks_submission [OF h1 h2, of asciiUpperCase 6 1001]
  have "submitApplication asciiUpperCase 6 1001 callerB referredBody store1
          = (Inl AlreadyApplied, store1)"
    by (simp add: j a)
  with scenario_submit h1 h2 show ?thesis by simp
qed

subsection \<open>C7: no self-referral\<close>

text \<open>
  Claim C7: an applicant who submits an application with their own referral code gets
  an application with \<open>isReferral\<close> false and \<open>referredBy\<close> null, and no referral
  counter is incremented. The code of the body is the applicant's own when its upper-case
  form, in the runtime's mapping, is the code stored for the applicant; the referral
  codes of the users are distinct, as the unique index of the schema has it. The
  application is the pending application of the caller for the job, appended to the
  collection of applications; no user's referral statistics change and no job's counter
  of referral applications changes.
\<close>

theorem own_referral_code_is_no_referral:
  assumes ok: "submitApplication upper now newId who body db = (Inr a, db')"
      and me: "findById user_id (caller_id who) (db_users db) = Some u"
      and code: "ab_referralCode body = Some c" "upper c = user_referralCode u"
      and uniq: "distinct (map user_referralCode (db_users db))"
  shows "isReferral a = False \<and> referredBy a = None \<and> app_referralCode a = None \<and>
         applicationSource a = ''direct'' \<and>
         app_jobId a = ab_jobId body \<and> applicantId a = caller_id who \<and>
         app_status a = Pending \<and>
         db_applications db' = db_applications db @ [a] \<and>
         db_users db' = db_users db \<and>
         map (\<lambda>jb. referralApplications (jstats jb)) (db_jobs db') =
           map (\<lambda>jb. referralApplications (jstats jb)) (db_jobs db)"
proof -
  have uid: "user_id u = caller_id who" using me by (rule findById_key)
  have "find (\<lambda>y. user_referralCode y = user_referralCode u) (db_users db) = Some u"
    using uniq findById_mem [OF me] by (rule find_distinct_key)
  then have hr: "handleReferralTracking upper who (ab_referralCode body) (db_users db) = (None, False)"
    unfolding handleReferralTracking_def by (simp add: code uid)
  from ok obtain jb owner referrer isRef where
    ct: "caller_type who = UserType" and
    jb: "findById job_id (ab_jobId body) (db_jobs db) = Some jb" and
    act: "job_status jb = Active" and
    ex: "find (\<lambda>a. app_jobId a = ab_jobId body \<and> applicantId a = caller_id who)
       (db_applications db) = None" and
    h: "handleReferralTracking upper who (ab_referralCode body) (db_users db) = (referrer, isRef)" and
    ow: "findById company_id (job_companyId jb) (db_companies db) = Some owner" and
    a: "a = (newApplication now newId (ab_jobId body) (caller_id who) (company_id owner) referrer
           (if isRef then map_option upper (ab_referralCode body) else None)
           isRef (ab_coverLetter body))
          \<lparr>applicationSource := (if isRef then ''referral'' else ''direct'')\<rparr>" and
    apps: "db_applications db' = db_applications db @ [a]" and
    jobs: "db_jobs db' = findByIdAndUpdate job_id (ab_jobId body) (incJobApplications isRef) (db_jobs db)" and
    users: "db_users db' = (if isRef then (case referrer of None \<Rightarrow> db_users db
                       | Some r \<Rightarrow> findByIdAndUpdate user_id r incTotalReferrals (db_users db))
                     else db_users db)" and
    comps: "db_companies db' = findByIdAndUpdate company_id (company_id owner) incTotalApplications
                          (db_companies db)"
    by (rule submitApplication_Inr)
  from h hr have [simp]: "referrer = None" "isRef = False" by simp_all
  have "map (\<lambda>jb. referralApplications (jstats jb)) (db_jobs db') =
           map (\<lambda>jb. referralApplications (jstats jb)) (db_jobs db)"
    unfolding jobs findByIdAndUpdate_def
    by (rule map_updateFirst) (simp add: incJobApplications_def Let_def)
  with a users apps show ?thesis by (simp add: newApplication_def)
qed

theorem own_referral_code_is_no_referral_witness:
  "submitApplication asciiUpperCase 5 1000 callerA referredBody store0
     = (Inr applicationSelf, storeSelf) \<and>
   findById user_id (caller_id callerA) (db_users store0) = Some userA \<and>
   ab_referralCode referredBody = Some ''ref-john-123456'' \<and>
   asciiUpperCase ''ref-john-123456'' = user_referralCode userA \<and>
   distinct (map user_referralCode (db_users store0)) \<and>
   isReferral applicationSelf = False \<and> referredBy applicationSelf = None \<and>
   db_applications storeSelf = db_applications store0 @ [applicationSelf] \<and>
   db_users storeSelf = db_users store0 \<and>
   map (\<lambda>jb. referralApplications (jstats jb)) (db_jobs storeSelf) =
     map (\<lambda>jb. referralApplications (jstats jb)) (db_jobs store0)"
proof -
  have h2: "findById user_id (caller_id callerA) (db_users store0) = Some userA"
    by (simp add: example_defs findById_def)
  have h3: "ab_referralCode referredBody = Some ''ref-john-123456''"
    by (simp add: referredBody_def)
  have h4: "asciiUpperCase ''ref-john-123456'' = user_referralCode userA"
    by (simp add: asciiUpperCase_code userA_def)
  have h5: "distinct (map user_referralCode (db_users store0))"
    by (simp add: example_defs)
  from own_referral_code_is_no_referral [OF scenario_self h2 h3 h4 h5] scenario_self h2 h3 h4 h5
  show ?thesis by simp
qed

subsection \<open>C8: withdrawal\<close>

text \<open>
  Claim C8: the withdrawal of an application succeeds, setting the status to withdrawn
  and appending to the status history, if and only if the caller is the applicant and
  the status is pending, reviewing or shortlisted; withdrawing an application that is
  already withdrawn fails with the error "Cannot withdraw application" (the
  specification's InvalidTransition) and changes nothing. On success the history gains
  the handler's entry, which records the applicant, followed by the entry of the
  pre-save middleware.
\<close>

theorem withdraw_iff_applicant_and_open:
  assumes found: "findById app_id (wb_id body) (db_applications db) = Some a"
  shows "((\<exists>a' db'. withdrawApplication now who body db = (Inr a', db')) =
            (caller_id who = applicantId a \<and> app_status a \<in> {Pending, Reviewing, Shortlisted}))
         \<and> (\<forall>a' db'. withdrawApplication now who body db = (Inr a', db') \<longrightarrow>
               app_status a' = Withdrawn \<and>
               statusHistory a' = statusHistory a @
                 [\<lparr>h_status = Withdrawn, h_timestamp = now,
                   h_note = orDefault (wb_reason body) ''Application withdrawn by applicant'',
                   updatedBy = Some (caller_id who), updatedByModel = Some UserModel\<rparr>,
                  \<lparr>h_status = Withdrawn, h_timestamp = now,
                   h_note = ''Status changed to withdrawn'',
                   updatedBy = None, updatedByModel = None\<rparr>] \<and>
               findById app_id (wb_id body) (db_applications db') = Some a')
         \<and> (caller_id who = applicantId a \<and> app_status a = Withdrawn \<longrightarrow>
               withdrawApplication now who body db = (Inl CannotWithdrawApplication, db))"
proof -
  have key: "app_id a = wb_id body" using found by (rule findById_key)
  note r = withdrawApplication_result [OF found, of now who]
  have 1: "(\<exists>a' db'. withdrawApplication now who body db = (Inr a', db')) =
            (caller_id who = applicantId a \<and> app_status a \<in> {Pending, Reviewing, Shortlisted})"
    unfolding r by (auto simp: Let_def)
  have 2: "\<forall>a' db'. withdrawApplication now who body db = (Inr a', db') \<longrightarrow>
               app_status a' = Withdrawn \<and>
               statusHistory a' = statusHistory a @
                 [\<lparr>h_status = Withdrawn, h_timestamp = now,
                   h_note = orDefault (wb_reason body) ''Application withdrawn by applicant'',
                   updatedBy = Some (caller_id who), updatedByModel = Some UserModel\<rparr>,
                  \<lparr>h_status = Withdrawn, h_timestamp = now,
                   h_note = ''Status changed to withdrawn'',
                   updatedBy = None, updatedByModel = None\<rparr>] \<and>
               findById app_id (wb_id body) (db_applications db') = Some a'"
    unfolding r
    by (auto simp: Let_def key [symmetric] findById_update_same found [unfolded key [symmetric]]
             split: if_splits)
  have 3: "caller_id who = applicantId a \<and> app_status a = Withdrawn \<longrightarrow>
               withdrawApplication now who body db = (Inl CannotWithdrawApplication, db)"
    unfolding r by simp
  from 1 2 3 show ?thesis by blast
qed

theorem withdraw_iff_applicant_and_open_witness:
  "findById app_id (wb_id withdrawBody) (db_applications store1) = Some applicationB \<and>
   caller_id callerB = applicantId applicationB \<and>
   app_status applicationB = Pending \<and>
   (\<exists>a' db'. withdrawApplication 20 callerB withdrawBody store1 = (Inr a', db')) \<and>
   withdrawApplication 20 callerB withdrawBody store1 = (Inr applicationWithdrawn, storeWithdrawn) \<and>
   app_status applicationWithdrawn = Withdrawn \<and>
   findById app_id (wb_id withdrawBody) (db_applications storeWithdrawn) = Some applicationWithdrawn \<and>
   caller_id callerB = applicantId applicationWithdrawn \<and>
   withdrawApplication 21 callerB withdrawBody storeWithdrawn
     = (Inl CannotWithdrawApplication, storeWithdrawn)"
proof -
  have h1: "findById app_id (wb_id withdrawBody) (db_applications store1) = Some applicationB"
    by (simp add: example_defs findById_def)
  have h2: "caller_id callerB = applicantId applicationB" "app_status applicationB = Pending"
    by (simp_all add: example_defs)
  have h4: "caller_id callerB = applicantId applicationWithdrawn"
    by (simp add: example_defs)
  from withdraw_iff_applicant_and_open [OF h1, of 20 callerB] h2
  have a: "\<exists>a' db'. withdrawApplication 20 callerB withdrawBody store1 = (Inr a', db')"
    by simp
  from withdraw_iff_applicant_and_open [OF h1, of 20 callerB] scenario_withdraw
  have w: "app_status applicationWithdrawn = Withdrawn"
    and h3: "findById app_id (wb_id withdrawBody) (db_applications storeWithdrawn)
               = Some applicationWithdrawn"
    by simp_all
  from withdraw_iff_applicant_and_open [OF h3, of 21 callerB] h4 w
  have b: "withdrawApplication 21 callerB withdrawBody storeWithdrawn
     = (Inl CannotWithdrawApplication, storeWithdrawn)"
    by simp
  from h1 h2 h3 h4 a b w scenario_withdraw show ?thesis by simp
qed

subsection \<open>C9: two history entries for one status change\<close>

text \<open>
  Claim C9: a successful \<open>updateApplicationStatus\<close> that changes the status of the
  application appends exactly two entries to the status history: the handler's entry,
  which records the acting company, and the entry of the pre-save middleware, which
  records no actor. The application returned is the one stored.
\<close>

theorem status_update_two_history_entries:
  assumes ok: "updateApplicationStatus now who body db = (Inr a', db')"
      and orig: "findById app_id (sb_id body) (db_applications db) = Some orig"
      and changed: "app_status a' \<noteq> app_status orig"
  shows "statusHistory a' = statusHistory orig @
           [\<lparr>h_status = app_status a', h_timestamp = now,
             h_note = orDefault (sb_note body)
                        (''Status changed to '' @ app_status_name (app_status a')),
             updatedBy = Some (caller_id who), updatedByModel = Some CompanyModel\<rparr>,
            \<lparr>h_status = app_status a', h_timestamp = now,
             h_note = ''Status changed to '' @ app_status_name (app_status a'),
             updatedBy = None, updatedByModel = None\<rparr>]
         \<and> findById app_id (sb_id body) (db_applications db') = Some a'"
proof -
  from ok obtain status orig' a3 db3 where
    o: "findById app_id (sb_id body) (db_applications db) = Some orig'" and
    h0: "handleSpecialStatusChanges now who status
       (updateStatusAndFeedback now who status body orig') db = (a3, db3)" and
    s: "saveApplication now orig' (feedbackProvided body) a3 db3 = Inr (a', db')"
    by (rule updateApplicationStatus_Inr)
  from o orig have [simp]: "orig' = orig" by simp
  define a2 where "a2 = updateStatusAndFeedback now who status body orig"
  note a2 = updateStatusAndFeedback_fields [of now who status body orig, folded a2_def]
  from handleSpecialStatusChanges_app [OF h0] obtain rp where
    a3: "a3 = a2\<lparr>referralPayment := rp\<rparr>"
    by (auto simp: a2_def)
  have st3: "app_status a3 = status" and id3: "app_id a3 = app_id orig"
    and h3: "statusHistory a3 = statusHistory orig @
                       [\<lparr>h_status = status, h_timestamp = now,
                         h_note = orDefault (sb_note body)
                                    (''Status changed to '' @ app_status_name status),
                         updatedBy = Some (caller_id who),
                         updatedByModel = Some CompanyModel\<rparr>]"
    by (subst a3, subst a2, simp)+
  from saveApplication_Inr [OF s]
  have a': "a' = (preSaveStatusHistory now (app_status a3 \<noteq> app_status orig) False None a3)\<lparr>updatedAt := now\<rparr>"
    and db': "db' = db3\<lparr>db_applications :=
                    findByIdAndUpdate app_id (app_id orig) (\<lambda>_. a') (db_applications db3)\<rparr>"
    by simp_all
  have st': "app_status a' = status" by (simp add: a' preSave_status st3)
  with changed have m: "app_status a3 \<noteq> app_status orig" by (simp add: st3)
  have hist: "statusHistory a' = statusHistory a3 @
        [\<lparr>h_status = status, h_timestamp = now,
          h_note = ''Status changed to '' @ app_status_name status,
          updatedBy = None, updatedByModel = None\<rparr>]"
    using m by (simp add: a' preSave_history st3)
  have id': "app_id a' = app_id orig" by (simp add: a' preSave_id id3)
  have key: "app_id orig = sb_id body" using orig by (rule findById_key)
  from handleSpecialStatusChanges_store [OF h0]
  have apps3: "db_applications db3 = db_applications db" by simp
  have "findById app_id (sb_id body) (db_applications db') = Some a'"
    by (simp add: db' apps3 key [symmetric] findById_update_same id' orig [unfolded key [symmetric]])
  with hist h3 st' show ?thesis by simp
qed

theorem status_update_two_history_entries_witness:
  "updateApplicationStatus 40 callerC hireBody store1 = (Inr applicationHired, store2) \<and>
   findById app_id (sb_id hireBody) (db_applications store1) = Some applicationB \<and>
   app_status applicationHired \<noteq> app_status applicationB \<and>
   statusHistory applicationB = [] \<and>
   statusHistory applicationHired =
     [\<lparr>h_status = Hired, h_timestamp = 40, h_note = ''Candidate hired!'',
       updatedBy = Some 10, updatedByModel = Some CompanyModel\<rparr>,
      \<lparr>h_status = Hired, h_timestamp = 40, h_note = ''Status changed to hired'',
       updatedBy = None, updatedByModel = None\<rparr>]"
proof -
  have h2: "findById app_id (sb_id hireBody) (db_applications store1) = Some applicationB"
    by (simp add: example_defs findById_def)
  have h3: "app_status applicationHired \<noteq> app_status applicationB"
    by (simp add: example_defs)
  have h4: "statusHistory applicationB = []" by (simp add: example_defs)
  from status_update_two_history_entries [OF scenario_hire h2 h3]
  have "statusHistory applicationHired =
     [\<lparr>h_status = Hired, h_timestamp = 40, h_note = ''Candidate hired!'',
       updatedBy = Some 10, updatedByModel = Some CompanyModel\<rparr>,
      \<lparr>h_status = Hired, h_timestamp = 40, h_note = ''Status changed to hired'',
       updatedBy = None, updatedByModel = None\<rparr>]"
    by (simp add: example_defs orDefault_def)
  with scenario_hire h2 h3 h4 show ?thesis by simp
qed

subsection \<open>C10: the frame of a withdrawal\<close>

text \<open>
  Claim C10: a successful withdrawal changes only the status, the status history and
  the timestamp of the application withdrawn. The jobs, the companies and the users of
  the store, and with them every counter, are as before, and so is every other
  application: the collection of applications differs in the one document only.
\<close>

theorem withdraw_changes_only_the_application:
  assumes found: "findById app_id (wb_id body) (db_applications db) = Some a"
      and ok: "withdrawApplication now who body db = (Inr a', db')"
  shows "a' = a\<lparr>app_status := Withdrawn, statusHistory := statusHistory a', updatedAt := now\<rparr>
         \<and> db_jobs db' = db_jobs db \<and> db_companies db' = db_companies db
         \<and> db_users db' = db_users db
         \<and> (\<exists>pre post. db_applications db = pre @ a # post \<and>
                         db_applications db' = pre @ a' # post)"
proof -
  note r = withdrawApplication_result [OF found, of now who]
  from found have f: "find (\<lambda>x. app_id x = app_id a) (db_applications db) = Some a"
    using findById_key [OF found] by (simp add: findById_def)
  from updateFirst_split [OF f, of "\<lambda>_. a'"] obtain pre post where
    sp: "db_applications db = pre @ a # post"
        "updateFirst (\<lambda>x. app_id x = app_id a) (\<lambda>_. a') (db_applications db) = pre @ a' # post"
    by blast
  from ok have a': "a' = a\<lparr>app_status := Withdrawn, statusHistory := statusHistory a', updatedAt := now\<rparr>"
    and db': "db' = db\<lparr>db_applications :=
                          findByIdAndUpdate app_id (app_id a) (\<lambda>_. a') (db_applications db)\<rparr>"
    unfolding r by (auto simp: Let_def split: if_splits)
  have "db_applications db' = pre @ a' # post"
    by (subst db') (simp add: findByIdAndUpdate_def sp(2))
  moreover have "db_jobs db' = db_jobs db" "db_companies db' = db_companies db"
    "db_users db' = db_users db"
    by (subst db', simp)+
  ultimately show ?thesis using a' sp(1) by blast
qed

theorem withdraw_changes_only_the_application_witness:
  "findById app_id (wb_id withdrawBody) (db_applications store1) = Some applicationB \<and>
   withdrawApplication 20 callerB withdrawBody store1 = (Inr applicationWithdrawn, storeWithdrawn) \<and>
   db_jobs storeWithdrawn = db_jobs store1 \<and>
   db_companies storeWithdrawn = db_companies store1 \<and>
   db_users storeWithdrawn = db_users store1 \<and>
   applicationWithdrawn =
     applicationB\<lparr>app_status := Withdrawn, statusHistory := statusHistory applicationWithdrawn,
                   updatedAt := 20\<rparr>"
proof -
  have h1: "findById app_id (wb_id withdrawBody) (db_applications store1) = Some applicationB"
    by (simp add: example_defs findById_def)
  from withdraw_changes_only_the_application [OF h1 scenario_withdraw] h1 scenario_withdraw
  show ?thesis by simp
qed

end
